theory Spec2Isabelle
  imports Complex_Main "HOL-Library.Sublist" "HOL-Library.Log_Nat"
begin

section \<open>Python strings\<close>

text \<open>
  A Python \<open>str\<close> is a sequence of Unicode code points. A code point is modelled as a
  natural number and a string as a list of them, so \<open>len(s)\<close> is \<open>length s\<close>.
  String literals of the source are written with \<open>str\<close> from an ASCII literal; code
  points above 127 are given by number (225 is a-acute, 243 o-acute, and so on).
\<close>

type_synonym pystr = "nat list"

definition str :: "string \<Rightarrow> pystr" where
  "str s = map of_char s"

text \<open>
  \<open>str.isspace\<close> for one code point: the white-space code points of CPython's Unicode
  database. \<open>str.strip()\<close> and \<open>str.split()\<close> without arguments use this set.
\<close>

definition isspace :: "nat \<Rightarrow> bool" where
  "isspace c \<longleftrightarrow>
     (9 \<le> c \<and> c \<le> 13) \<or> (28 \<le> c \<and> c \<le> 32) \<or> c = 133 \<or> c = 160 \<or> c = 5760 \<or>
     (8192 \<le> c \<and> c \<le> 8202) \<or> c = 8232 \<or> c = 8233 \<or> c = 8239 \<or> c = 8287 \<or> c = 12288"

definition strip :: "pystr \<Rightarrow> pystr" where
  "strip s = rev (dropWhile isspace (rev (dropWhile isspace s)))"

text \<open>
  \<open>s.split()\<close>: the maximal runs of non-white-space code points, in order. \<open>cur\<close> is the
  token being read.
\<close>

fun split_from :: "pystr \<Rightarrow> pystr \<Rightarrow> pystr list" where
  "split_from cur [] = (if cur = [] then [] else [cur])"
| "split_from cur (c # cs) =
     (if isspace c then (if cur = [] then split_from [] cs else cur # split_from [] cs)
      else split_from (cur @ [c]) cs)"

definition split :: "pystr \<Rightarrow> pystr list" where
  "split s = split_from [] s"

definition startswith :: "pystr \<Rightarrow> pystr \<Rightarrow> bool" where
  "startswith s p \<longleftrightarrow> take (length p) s = p"

definition endswith :: "pystr \<Rightarrow> pystr \<Rightarrow> bool" where
  "endswith s p \<longleftrightarrow> length p \<le> length s \<and> drop (length s - length p) s = p"

text \<open>\<open>sub in s\<close>: \<open>sub\<close> occurs in \<open>s\<close> as a contiguous slice.\<close>

fun contains :: "pystr \<Rightarrow> pystr \<Rightarrow> bool" where
  "contains sub [] = (sub = [])"
| "contains sub (c # cs) = (startswith (c # cs) sub \<or> contains sub cs)"

text \<open>
  \<open>s.replace(old, new)\<close>: the occurrences of \<open>old\<close> are found from left to right, without
  overlap. For an empty \<open>old\<close> Python puts \<open>new\<close> before every code point and at the end.
\<close>

function replace :: "pystr \<Rightarrow> pystr \<Rightarrow> pystr \<Rightarrow> pystr" where
  "replace old new [] = (if old = [] then new else [])"
| "replace old new (c # cs) =
     (if old = [] then new @ c # replace old new cs
      else if startswith (c # cs) old then new @ replace old new (drop (length old) (c # cs))
      else c # replace old new cs)"
  by pat_completeness auto
termination
  by (relation "measure (\<lambda>(old, new, s). length s)") auto

text \<open>
  Case mapping. \<open>str.lower()\<close> depends on Unicode's tables, which are not part of the
  program: the functions that call it take it as the argument \<open>lower\<close>.
  \<open>ascii_lower\<close> is what it does on ASCII strings. \<open>str.capitalize()\<close> is only ever
  applied to the three ASCII tier names; \<open>capitalize\<close> upper-cases the first and
  lower-cases the other ASCII letters and leaves other code points as they are.
\<close>

definition lower_cp :: "nat \<Rightarrow> nat" where
  "lower_cp c = (if 65 \<le> c \<and> c \<le> 90 then c + 32 else c)"

definition upper_cp :: "nat \<Rightarrow> nat" where
  "upper_cp c = (if 97 \<le> c \<and> c \<le> 122 then c - 32 else c)"

definition ascii_lower :: "pystr \<Rightarrow> pystr" where
  "ascii_lower s = map lower_cp s"

fun capitalize :: "pystr \<Rightarrow> pystr" where
  "capitalize [] = []"
| "capitalize (c # cs) = upper_cp c # map lower_cp cs"

section \<open>Python floats\<close>

text \<open>
  A Python \<open>float\<close> is an IEEE 754 binary64 number. A finite one is modelled by its exact
  rational value; every arithmetic operation computes the exact result and rounds it to
  the nearest binary64 value, ties to even (\<open>fl\<close>). \<open>expo x\<close> is the binary exponent of
  a positive \<open>x\<close>, that is \<open>\<lfloor>log\<^sub>2 x\<rfloor>\<close>; below \<open>2\<^sup>-\<^sup>1\<^sup>0\<^sup>2\<^sup>2\<close> the spacing stays that
  of the subnormal numbers. Overflow is not modelled: no float computed by the program
  exceeds 100.
\<close>

datatype pyfloat = Finite rat | PosInf | NegInf | NaN

definition rhe :: "rat \<Rightarrow> int" where
  "rhe q = (let f = \<lfloor>q\<rfloor>; d = q - of_int f in
            if d < 1/2 then f else if 1/2 < d then f + 1 else if even f then f else f + 1)"

definition expo :: "rat \<Rightarrow> int" where
  "expo x = (let e0 = bitlen (fst (quotient_of x)) - bitlen (snd (quotient_of x)) in
             if 2 powi e0 \<le> x then e0 else e0 - 1)"

definition fl :: "rat \<Rightarrow> rat" where
  "fl x = (if x = 0 then 0
           else let e = max (expo \<bar>x\<bar>) (- 1022); ulp = 2 powi (e - 52)
                in of_int (rhe (x / ulp)) * ulp)"

text \<open>\<open>a / b\<close> on two \<open>int\<close>s (correctly rounded), \<open>x * y\<close> on floats, \<open>round(x, 1)\<close>
  (the decimal nearest to \<open>x\<close> with one digit, ties to even, then the float nearest to
  it), and the literal \<open>0.6\<close>.\<close>

definition py_truediv :: "nat \<Rightarrow> nat \<Rightarrow> rat" where
  "py_truediv a b = fl (of_nat a / of_nat b)"

definition py_mul :: "rat \<Rightarrow> rat \<Rightarrow> rat" where
  "py_mul x y = fl (x * y)"

definition py_round1 :: "rat \<Rightarrow> rat" where
  "py_round1 x = fl (of_int (rhe (x * 10)) / 10)"

definition float_0_6 :: rat where
  "float_0_6 = fl (6 / 10)"

section \<open>JSON values, dictionaries and exceptions\<close>

text \<open>
  The values \<open>json.loads\<close> returns and \<open>json.dumps\<close> accepts. A \<open>dict\<close> is an association
  list with distinct keys, in insertion order. \<open>json.loads(json.dumps(v))\<close> is \<open>v\<close> for
  these values, so a string made by \<open>json.dumps\<close> is represented by the value it
  encodes.
\<close>

datatype json =
    JNull
  | JBool bool
  | JInt int
  | JFloat pyfloat
  | JStr pystr
  | JList "json list"
  | JObj "(pystr \<times> json) list"

type_synonym pydict = "(pystr \<times> json) list"

definition dict_get :: "pydict \<Rightarrow> pystr \<Rightarrow> json \<Rightarrow> json" where
  "dict_get d k dflt = (case map_of d k of None \<Rightarrow> dflt | Some v \<Rightarrow> v)"

text \<open>
  An exception, with the text \<open>str(e)\<close> gives for it. \<open>LibraryError\<close> is an exception
  of a class that a library defines (the JSON parser, the Gemini client): it carries the
  name of its class too. \<open>exc_type_name\<close> is \<open>type(e).__name__\<close>.
\<close>

datatype pyexc =
    AttributeError pystr
  | TypeError pystr
  | UnicodeEncodeError pystr
  | LibraryError pystr pystr

fun exc_str :: "pyexc \<Rightarrow> pystr" where
  "exc_str (AttributeError m) = m"
| "exc_str (TypeError m) = m"
| "exc_str (UnicodeEncodeError m) = m"
| "exc_str (LibraryError c m) = m"

fun exc_type_name :: "pyexc \<Rightarrow> pystr" where
  "exc_type_name (AttributeError m) = str ''AttributeError''"
| "exc_type_name (TypeError m) = str ''TypeError''"
| "exc_type_name (UnicodeEncodeError m) = str ''UnicodeEncodeError''"
| "exc_type_name (LibraryError c m) = c"

fun type_name :: "json \<Rightarrow> pystr" where
  "type_name JNull = str ''NoneType''"
| "type_name (JBool b) = str ''bool''"
| "type_name (JInt i) = str ''int''"
| "type_name (JFloat f) = str ''float''"
| "type_name (JStr s) = str ''str''"
| "type_name (JList xs) = str ''list''"
| "type_name (JObj d) = str ''dict''"

definition no_attribute :: "json \<Rightarrow> string \<Rightarrow> pyexc" where
  "no_attribute v a =
     AttributeError (str [CHR 0x27] @ type_name v @ str [CHR 0x27] @
                     str '' object has no attribute '' @ str [CHR 0x27] @ str a @ str [CHR 0x27])"

text \<open>\<open>v < n\<close> for an \<open>int\<close> literal \<open>n\<close>: numbers (and \<open>bool\<close>, which is an \<open>int\<close>) are
  compared by value, a comparison with \<open>nan\<close> is false, anything else raises.\<close>

fun float_lt_int :: "pyfloat \<Rightarrow> int \<Rightarrow> bool" where
  "float_lt_int (Finite q) n = (q < of_int n)"
| "float_lt_int PosInf n = False"
| "float_lt_int NegInf n = True"
| "float_lt_int NaN n = False"

fun py_lt_int :: "json \<Rightarrow> int \<Rightarrow> pyexc + bool" where
  "py_lt_int (JInt i) n = Inr (i < n)"
| "py_lt_int (JBool b) n = Inr ((if b then 1 else 0) < n)"
| "py_lt_int (JFloat f) n = Inr (float_lt_int f n)"
| "py_lt_int v n =
     Inl (TypeError (str [CHR 0x27, CHR ''<'', CHR 0x27] @
                     str '' not supported between instances of '' @
                     str [CHR 0x27] @ type_name v @ str [CHR 0x27] @ str '' and '' @
                     str [CHR 0x27] @ str ''int'' @ str [CHR 0x27]))"

text \<open>\<open>try: body except Exception as e: handler(e)\<close>, and one statement after another:
  the second runs with the value of the first unless the first raises.\<close>

definition try_except :: "pyexc + 'a \<Rightarrow> (pyexc \<Rightarrow> pyexc + 'a) \<Rightarrow> pyexc + 'a" where
  "try_except body handler = (case body of Inl e \<Rightarrow> handler e | Inr v \<Rightarrow> Inr v)"

definition and_then :: "pyexc + 'a \<Rightarrow> ('a \<Rightarrow> pyexc + 'b) \<Rightarrow> pyexc + 'b" where
  "and_then first rest = (case first of Inl e \<Rightarrow> Inl e | Inr v \<Rightarrow> rest v)"

section \<open>The standard output\<close>

text \<open>
  \<open>print(line)\<close> encodes the line and writes it to \<open>sys.stdout\<close>. Whether that works
  depends on the stream the process was started with: a stream whose encoding has no
  byte sequence for a code point of the line raises \<open>UnicodeEncodeError\<close>. The stream is
  modelled by the function \<open>out\<close> that gives, for a line, the exception writing it raises
  (if any). \<open>prints\<close> is a run of consecutive \<open>print\<close> statements: it stops at the first
  one that raises.
\<close>

definition print :: "(pystr \<Rightarrow> pyexc option) \<Rightarrow> pystr \<Rightarrow> pyexc + unit" where
  "print out linea = (case out linea of None \<Rightarrow> Inr () | Some e \<Rightarrow> Inl e)"

fun prints :: "(pystr \<Rightarrow> pyexc option) \<Rightarrow> pystr list \<Rightarrow> pyexc + unit" where
  "prints out [] = Inr ()"
| "prints out (linea # lineas) = and_then (print out linea) (\<lambda>_. prints out lineas)"

text \<open>What an f-string puts for a \<open>len(\<dots>)\<close> (the decimal digits) and for a \<open>bool\<close>.\<close>

fun str_nat :: "nat \<Rightarrow> pystr" where
  "str_nat n = (if n < 10 then [48 + n] else str_nat (n div 10) @ [48 + n mod 10])"

declare str_nat.simps [simp del]

definition str_bool :: "bool \<Rightarrow> pystr" where
  "str_bool b = (if b then str ''True'' else str ''False'')"

section \<open>The program\<close>

subsection \<open>Configuration and helpers\<close>

definition MAX_FILE_SIZE :: nat where
  "MAX_FILE_SIZE = 10 * 1024 * 1024"

definition ALLOWED_EXTENSIONS :: "pystr list" where
  "ALLOWED_EXTENSIONS =
     [str ''.txt'', str ''.docx'', str ''.pdf'',
      str ''.jpg'', str ''.jpeg'', str ''.png'', str ''.bmp'', str ''.tiff'']"

definition allowed_file :: "(pystr \<Rightarrow> pystr) \<Rightarrow> pystr \<Rightarrow> bool" where
  "allowed_file lower filename = list_ex (\<lambda>ext. endswith (lower filename) ext) ALLOWED_EXTENSIONS"

text \<open>\<open>error\<close> is \<open>str(error)\<close> of the exception that was caught.\<close>

definition diagnosticar_error_gemini :: "(pystr \<Rightarrow> pystr) \<Rightarrow> pystr \<Rightarrow> pystr" where
  "diagnosticar_error_gemini lower error =
     (let error_str = lower error in
      if contains (str ''quota'') error_str \<or> contains (str ''limit'') error_str then
        str ''Cuota de API alcanzada - Has excedido el l'' @ [237] @ str ''mite de requests''
      else if contains (str ''invalid'') error_str \<and> contains (str ''key'') error_str then
        str ''API Key inv'' @ [225] @ str ''lida - Verifica tu clave de Google AI''
      else if contains (str ''unauthorized'') error_str \<or> contains (str ''401'') error_str then
        str ''No autorizado - API Key incorrecta o expirada''
      else if contains (str ''rate'') error_str \<and> contains (str ''limit'') error_str then
        str ''L'' @ [237] @ str ''mite de velocidad alcanzado - Demasiadas requests por minuto''
      else if contains (str ''network'') error_str \<or> contains (str ''connection'') error_str then
        str ''Error de conexi'' @ [243] @ str ''n - Problema de red o internet''
      else if contains (str ''timeout'') error_str then
        str ''Timeout - La request tard'' @ [243] @ str '' demasiado en responder''
      else if contains (str ''json'') error_str then
        str ''Error de formato JSON - Respuesta malformada de Gemini''
      else if contains (str ''model'') error_str then
        str ''Modelo no disponible - Error con el modelo de IA''
      else str ''Error desconocido: '' @ error)"

definition limpiar_respuesta_gemini :: "pystr \<Rightarrow> pystr" where
  "limpiar_respuesta_gemini response_text =
     (if response_text = [] then []
      else
        let t1 = (if startswith response_text (str ''```json'')
                  then replace (str ''```'') [] (replace (str ''```json'') [] response_text)
                  else response_text);
            t2 = strip t1
        in replace [92, 116] [9] (replace [92, 110] [10] t2))"

subsection \<open>The Heuristic Scorer\<close>

text \<open>The expression both report builders use for the key \<open>densidad_vocabulario\<close>.\<close>

definition densidad_vocabulario :: "pystr \<Rightarrow> json" where
  "densidad_vocabulario texto =
     (if split texto = [] then JInt 0
      else JFloat (Finite (py_round1
             (py_mul (py_truediv (card (set (split texto))) (length (split texto))) 100))))"

definition preguntas_fallback :: "json list" where
  "preguntas_fallback =
     [JStr ([191] @ str ''Puedes explicar el tema principal con tus propias palabras?''),
      JStr (str ''Dame un ejemplo relacionado con tu entorno.''),
      JStr ([191] @ str ''Qu'' @ [233] @ str '' parte te cost'' @ [243] @ str '' m'' @ [225] @
            str ''s entender de este trabajo?'')]"

definition analisis_automatico_basico :: pystr where
  "analisis_automatico_basico =
     str ''An'' @ [225] @ str ''lisis autom'' @ [225] @ str ''tico b'' @ [225] @ str ''sico''"

text \<open>
  \<open>analisis_fallback\<close>. The list \<open>indicadores\<close> and the counter \<open>porcentaje\<close> are updated
  by four tests in turn; \<open>i1 \<dots> i5\<close> and \<open>p1 \<dots> p4\<close> are their successive values.
\<close>

definition analisis_fallback :: "pystr \<Rightarrow> pystr \<Rightarrow> json" where
  "analisis_fallback texto nivel_educativo =
     (let i0 = []; p0 = (50::int);
          (i1, p1) = (if length texto < 100
                      then (i0 @ [JStr (str ''Texto muy corto'')], p0 + 20) else (i0, p0));
          (i2, p2) = (if count_list texto 46 < 3
                      then (i1 @ [JStr (str ''Pocos puntos (posible copia)'')], p1 + 15)
                      else (i1, p1));
          (i3, p3) = (if card (set (split texto)) < 15
                      then (i2 @ [JStr (str ''Vocabulario limitado'')], p2 + 15) else (i2, p2));
          palabras = split texto;
          (i4, p4) = (if length palabras > 10 then
                        (let palabras_unicas = card (set palabras);
                             ratio = py_truediv palabras_unicas (length palabras)
                         in if ratio < float_0_6
                            then (i3 @ [JStr (str ''Mucha repetici'' @ [243] @
                                              str ''n de palabras'')], p3 + 20)
                            else (i3, p3))
                      else (i3, p3));
          i5 = (if nivel_educativo \<in> set [str ''basica-1-4'', str ''basica-5-8''] then
                  i4 @ [JStr (str ''An'' @ [225] @ str ''lisis b'' @ [225] @
                              str ''sico para nivel '' @ nivel_educativo)]
                else if nivel_educativo \<in> set [str ''medio-1-2'', str ''medio-3-4''] then
                  i4 @ [JStr (str ''An'' @ [225] @ str ''lisis para educaci'' @ [243] @
                              str ''n media'')]
                else i4 @ [JStr analisis_automatico_basico]);
          nivel = (if p4 < 50 then str ''bajo'' else if p4 < 75 then str ''medio''
                   else str ''alto'');
          color = (if nivel = str ''bajo'' then str ''green''
                   else if nivel = str ''medio'' then str ''yellow'' else str ''red'')
      in JObj
        [(str ''porcentaje'', JInt (min p4 100)),
         (str ''color'', JStr color),
         (str ''label'', JStr (capitalize nivel)),
         (str ''indicadores'', JList (if i5 \<noteq> [] then i5 else [JStr analisis_automatico_basico])),
         (str ''preguntas'', JList preguntas_fallback),
         (str ''filename'', JStr []),
         (str ''analizado_con_ia'', JBool False),
         (str ''nivel_educativo'', JStr nivel_educativo),
         (str ''error_info'', JStr (str ''An'' @ [225] @ str ''lisis autom'' @ [225] @
                                   str ''tico (fallback)'')),
         (str ''longitud_texto'', JInt (int (length texto))),
         (str ''palabras_unicas'', JInt (int (card (set (split texto))))),
         (str ''densidad_vocabulario'', densidad_vocabulario texto)])"

subsection \<open>The Heuristic Scorer in a run with its own hash function\<close>

text \<open>
  Two runs of the program differ in the hash function of their strings (Python
  randomises it per process), and with it in the order in which a \<open>set\<close> of strings is
  laid out and iterated. \<open>py_set h xs\<close> is \<open>set(xs)\<close> in a run whose hash function is
  \<open>h\<close>: the distinct elements of \<open>xs\<close>, in the order of their hashes (and in the order
  of their first occurrence where the hashes agree). \<open>analisis_fallback_run h\<close> is
  \<open>analisis_fallback\<close> as such a run evaluates it, every \<open>len(set(\<dots>))\<close> being the length
  of that run's set.
\<close>

definition py_set :: "(pystr \<Rightarrow> nat) \<Rightarrow> pystr list \<Rightarrow> pystr list" where
  "py_set h xs = sort_key h (rev (remdups (rev xs)))"

definition densidad_vocabulario_run :: "(pystr \<Rightarrow> nat) \<Rightarrow> pystr \<Rightarrow> json" where
  "densidad_vocabulario_run h texto =
     (if split texto = [] then JInt 0
      else JFloat (Finite (py_round1
             (py_mul (py_truediv (length (py_set h (split texto))) (length (split texto))) 100))))"

definition analisis_fallback_run :: "(pystr \<Rightarrow> nat) \<Rightarrow> pystr \<Rightarrow> pystr \<Rightarrow> json" where
  "analisis_fallback_run h texto nivel_educativo =
     (let i0 = []; p0 = (50::int);
          (i1, p1) = (if length texto < 100
                      then (i0 @ [JStr (str ''Texto muy corto'')], p0 + 20) else (i0, p0));
          (i2, p2) = (if count_list texto 46 < 3
                      then (i1 @ [JStr (str ''Pocos puntos (posible copia)'')], p1 + 15)
                      else (i1, p1));
          (i3, p3) = (if length (py_set h (split texto)) < 15
                      then (i2 @ [JStr (str ''Vocabulario limitado'')], p2 + 15) else (i2, p2));
          palabras = split texto;
          (i4, p4) = (if length palabras > 10 then
                        (let palabras_unicas = length (py_set h palabras);
                             ratio = py_truediv palabras_unicas (length palabras)
                         in if ratio < float_0_6
                            then (i3 @ [JStr (str ''Mucha repetici'' @ [243] @
                                              str ''n de palabras'')], p3 + 20)
                            else (i3, p3))
                      else (i3, p3));
          i5 = (if nivel_educativo \<in> set [str ''basica-1-4'', str ''basica-5-8''] then
                  i4 @ [JStr (str ''An'' @ [225] @ str ''lisis b'' @ [225] @
                              str ''sico para nivel '' @ nivel_educativo)]
                else if nivel_educativo \<in> set [str ''medio-1-2'', str ''medio-3-4''] then
                  i4 @ [JStr (str ''An'' @ [225] @ str ''lisis para educaci'' @ [243] @
                              str ''n media'')]
                else i4 @ [JStr analisis_automatico_basico]);
          nivel = (if p4 < 50 then str ''bajo'' else if p4 < 75 then str ''medio''
                   else str ''alto'');
          color = (if nivel = str ''bajo'' then str ''green''
                   else if nivel = str ''medio'' then str ''yellow'' else str ''red'')
      in JObj
        [(str ''porcentaje'', JInt (min p4 100)),
         (str ''color'', JStr color),
         (str ''label'', JStr (capitalize nivel)),
         (str ''indicadores'', JList (if i5 \<noteq> [] then i5 else [JStr analisis_automatico_basico])),
         (str ''preguntas'', JList preguntas_fallback),
         (str ''filename'', JStr []),
         (str ''analizado_con_ia'', JBool False),
         (str ''nivel_educativo'', JStr nivel_educativo),
         (str ''error_info'', JStr (str ''An'' @ [225] @ str ''lisis autom'' @ [225] @
                                   str ''tico (fallback)'')),
         (str ''longitud_texto'', JInt (int (length texto))),
         (str ''palabras_unicas'', JInt (int (length (py_set h (split texto))))),
         (str ''densidad_vocabulario'', densidad_vocabulario_run h texto)])"

subsection \<open>The Response Normalizer\<close>

text \<open>
  The three values every analysis returns: the report (the value its \<open>json.dumps\<close>
  string encodes), the flag \<open>analizado_con_ia\<close> and the text \<open>error_info\<close>.
\<close>

type_synonym resultado = "json \<times> bool \<times> pystr"

definition analisis_exitoso :: pystr where
  "analisis_exitoso = str ''An'' @ [225] @ str ''lisis exitoso con IA''"

text \<open>
  The body of the \<open>try\<close> block of \<open>transformar_respuesta_gemini\<close>. \<open>loads\<close> is
  \<open>json.loads\<close>: it returns a value or raises. \<open>data.get\<close> raises when \<open>data\<close> is not
  a \<open>dict\<close>, and the comparisons raise when \<open>porcentaje\<close> is not a number.
\<close>

definition transformar_try :: "(pystr \<Rightarrow> pyexc + json) \<Rightarrow> pystr \<Rightarrow> pystr \<Rightarrow> pystr \<Rightarrow> pyexc + resultado" where
  "transformar_try loads respuesta_gemini texto nivel_educativo =
     (case loads respuesta_gemini of
        Inl e \<Rightarrow> Inl e
      | Inr data \<Rightarrow>
         (case data of
            JObj d \<Rightarrow>
              (let porcentaje = dict_get d (str ''porcentaje'') (JInt 50);
                   indicadores = dict_get d (str ''indicadores'') (JList []);
                   preguntas = dict_get d (str ''preguntas'') (JList [])
               in case py_lt_int porcentaje 50 of
                    Inl e \<Rightarrow> Inl e
                  | Inr lt50 \<Rightarrow>
                     (case (if lt50 then Inr (str ''green'', str ''Bajo'')
                            else (case py_lt_int porcentaje 75 of
                                    Inl e \<Rightarrow> Inl e
                                  | Inr lt75 \<Rightarrow>
                                      if lt75 then Inr (str ''yellow'', str ''Medio'')
                                      else Inr (str ''red'', str ''Alto''))) of
                        Inl e \<Rightarrow> Inl e
                      | Inr (color, label) \<Rightarrow>
                          Inr (JObj
                            [(str ''porcentaje'', porcentaje),
                             (str ''color'', JStr color),
                             (str ''label'', JStr label),
                             (str ''indicadores'', indicadores),
                             (str ''preguntas'', preguntas),
                             (str ''filename'', JStr []),
                             (str ''analizado_con_ia'', JBool True),
                             (str ''nivel_educativo'', JStr nivel_educativo),
                             (str ''error_info'', JStr analisis_exitoso),
                             (str ''longitud_texto'', JInt (int (length texto))),
                             (str ''palabras_unicas'', JInt (int (card (set (split texto))))),
                             (str ''densidad_vocabulario'', densidad_vocabulario texto)],
                            True, analisis_exitoso)))
          | _ \<Rightarrow> Inl (no_attribute data ''get'')))"

text \<open>
  \<open>transformar_respuesta_gemini\<close>: the \<open>try\<close> block, and the \<open>except\<close> block, which
  writes a line (it starts with the code point 10060, a cross mark) and then returns the
  Heuristic Scorer's report. \<open>out\<close> is the standard output.
\<close>

definition transformar_respuesta_gemini ::
  "(pystr \<Rightarrow> pyexc option) \<Rightarrow> (pystr \<Rightarrow> pyexc + json) \<Rightarrow> pystr \<Rightarrow> pystr \<Rightarrow> pystr \<Rightarrow>
   pyexc + resultado" where
  "transformar_respuesta_gemini out loads respuesta_gemini texto nivel_educativo =
     try_except (transformar_try loads respuesta_gemini texto nivel_educativo)
       (\<lambda>e. and_then
              (print out ([10060] @ str '' Error transformando respuesta: '' @ exc_str e))
              (\<lambda>_. Inr (analisis_fallback texto nivel_educativo, False,
                        str ''Error transformando respuesta: '' @ exc_str e)))"

subsection \<open>The Analysis Orchestrator\<close>

text \<open>
  The value \<open>generate_content\<close> returns: \<open>None\<close>, an object without the attribute
  \<open>text\<close>, an object whose attribute \<open>text\<close> raises when it is read (an exception other
  than \<open>AttributeError\<close>, which \<open>hasattr\<close> lets through), or an object whose \<open>text\<close> is a
  string or \<open>None\<close>.
\<close>

datatype respuesta =
    RespNone
  | RespSinTexto
  | RespError pyexc
  | RespTexto "pystr option"

text \<open>
  What lies outside the program: \<open>str.lower\<close>, \<open>json.loads\<close>, the configured API key
  (\<open>os.getenv\<close> gives a string or \<open>None\<close>), the Gemini client and the standard output.
  \<open>generative_model\<close> is the call \<open>genai.GenerativeModel('gemini-1.5-flash')\<close>: it raises
  or gives the model, which the program only uses to write \<open>str(model)\<close> and to call
  \<open>generate_content\<close>. \<open>generate_content\<close> is given the two values put into the prompt
  (the level description and the first 1500 code points of the text). \<open>py_repr\<close> is
  \<open>repr\<close> on a string; \<open>str_type\<close> and \<open>str_dir\<close> are the texts of \<open>type(response)\<close>
  and \<open>dir(response)\<close>.
\<close>

record entorno =
  str_lower :: "pystr \<Rightarrow> pystr"
  json_loads :: "pystr \<Rightarrow> pyexc + json"
  api_key :: "pystr option"
  generative_model :: "pyexc + pystr"
  generate_content :: "pystr \<Rightarrow> pystr \<Rightarrow> pyexc + respuesta"
  stdout :: "pystr \<Rightarrow> pyexc option"
  py_repr :: "pystr \<Rightarrow> pystr"
  str_type :: "respuesta \<Rightarrow> pystr"
  str_dir :: "respuesta \<Rightarrow> pystr"

definition niveles :: "pystr \<rightharpoonup> pystr" where
  "niveles = map_of
     [(str ''basica-1-4'', str ''Educaci'' @ [243] @ str ''n B'' @ [225] @ str ''sica 1'' @ [176] @
         str ''-4'' @ [176] @ str '' (7-10 a'' @ [241] @ str ''os)''),
      (str ''basica-5-8'', str ''Educaci'' @ [243] @ str ''n B'' @ [225] @ str ''sica 5'' @ [176] @
         str ''-8'' @ [176] @ str '' (11-14 a'' @ [241] @ str ''os)''),
      (str ''medio-1-2'', str ''Educaci'' @ [243] @ str ''n Media 1'' @ [176] @
         str ''-2'' @ [176] @ str '' (15-16 a'' @ [241] @ str ''os)''),
      (str ''medio-3-4'', str ''Educaci'' @ [243] @ str ''n Media 3'' @ [176] @
         str ''-4'' @ [176] @ str '' (17-18 a'' @ [241] @ str ''os)''),
      (str ''superior'', str ''Educaci'' @ [243] @ str ''n Superior (18+ a'' @ [241] @ str ''os)'')]"

definition respuesta_vacia :: pystr where
  "respuesta_vacia = str ''Gemini devolvi'' @ [243] @ str '' respuesta vac'' @ [237] @ str ''a''"

text \<open>
  The \<open>try\<close> block of \<open>analizar_con_gemini\<close>, in two parts. \<open>procesar_respuesta\<close> is
  what follows the call \<open>model.generate_content(prompt)\<close>: the checks on the response,
  the cleaning step and the Response Normalizer, with every line written on the way. The
  lines that start with a code point above 127 start with a pictograph in the source
  (10060 a cross mark, 9989 a check mark, 128269 a magnifying glass, and so on).
\<close>

definition procesar_respuesta :: "entorno \<Rightarrow> respuesta \<Rightarrow> pystr \<Rightarrow> pystr \<Rightarrow> pyexc + resultado" where
  "procesar_respuesta env response texto nivel_educativo =
     and_then (prints (stdout env)
        [[9989] @ str '' Respuesta recibida de Gemini'',
         str '' Tipo de respuesta: '' @ str_type env response,
         str '' Respuesta es None: '' @ str_bool (response = RespNone)]) (\<lambda>_.
     case response of
       RespNone \<Rightarrow>
         and_then (print (stdout env) ([10060] @ str '' Respuesta de Gemini es None'')) (\<lambda>_.
         Inr (analisis_fallback texto nivel_educativo, False, respuesta_vacia))
     | RespSinTexto \<Rightarrow>
         and_then (prints (stdout env)
            [[10060] @ str '' Respuesta no tiene atributo '' @ [39] @ str ''text'' @ [39],
             [128221] @ str '' Atributos disponibles: '' @ str_dir env response]) (\<lambda>_.
         Inr (analisis_fallback texto nivel_educativo, False,
              str ''Respuesta de Gemini no tiene texto''))
     | RespError e \<Rightarrow> Inl e
     | RespTexto response_text \<Rightarrow>
         and_then (prints (stdout env)
            [[128221] @ str '' Longitud de respuesta: '' @
               str_nat (case response_text of None \<Rightarrow> 0 | Some t \<Rightarrow> length t) @
               str '' caracteres'',
             str '' Respuesta es vac'' @ [237] @ str ''a: '' @ str_bool (response_text = Some []),
             str '' Respuesta es None: '' @ str_bool (response_text = None)]) (\<lambda>_.
         if response_text = None \<or> response_text = Some [] \<or>
            strip (case response_text of None \<Rightarrow> [] | Some t \<Rightarrow> t) = []
         then
           and_then (print (stdout env)
              ([10060] @ str '' Respuesta de Gemini est'' @ [225] @ str '' vac'' @ [237] @ str ''a''))
             (\<lambda>_. Inr (analisis_fallback texto nivel_educativo, False, respuesta_vacia))
         else
           let t = (case response_text of None \<Rightarrow> [] | Some t \<Rightarrow> t) in
           and_then (prints (stdout env)
              [replicate 80 61,
               str '' RESPUESTA COMPLETA DE GEMINI:'',
               replicate 80 61,
               py_repr env t,
               replicate 80 61,
               [128202] @ str '' Caracteres en respuesta: '' @ str_nat (length t),
               [128202] @ str '' Primeros 10 caracteres: '' @ [39] @ take 10 t @ [39],
               [128202, 32, 218] @ str ''ltimos 10 caracteres: '' @ [39] @
                 drop (length t - 10) t @ [39],
               str '' Respuesta contiene solo espacios: '' @ str_bool (strip t = []),
               replicate 80 61,
               [129529] @ str '' Limpiando respuesta de Gemini...'']) (\<lambda>_.
           let response_text_limpia = limpiar_respuesta_gemini t in
           and_then (prints (stdout env)
              [[128221] @ str '' Respuesta limpia: '' @ py_repr env response_text_limpia,
               str '' Longitud respuesta limpia: '' @ str_nat (length response_text_limpia),
               [128260] @ str '' Transformando respuesta simple a formato completo...'']) (\<lambda>_.
           transformar_respuesta_gemini (stdout env) (json_loads env) response_text_limpia
             texto nivel_educativo))))"

definition gemini_try :: "entorno \<Rightarrow> pystr \<Rightarrow> pystr \<Rightarrow> pystr \<Rightarrow> pyexc + resultado" where
  "gemini_try env nivel_desc texto nivel_educativo =
     and_then (prints (stdout env)
        [[128269] @ str '' Intentando conectar con Gemini...'',
         str '' Longitud del texto: '' @ str_nat (length texto) @ str '' caracteres'',
         str '' Nivel educativo: '' @ nivel_desc]) (\<lambda>_.
     if api_key env = None \<or> api_key env = Some [] \<or> api_key env = Some (str ''tu_api_key_aqui'')
     then
       and_then (print (stdout env) ([10060] @ str '' API Key no configurada'')) (\<lambda>_.
       Inr (analisis_fallback texto nivel_educativo, False, str ''API Key no configurada''))
     else
       and_then (print (stdout env)
          ([128273] @ str '' API Key configurada: '' @
           take 10 (case api_key env of None \<Rightarrow> [] | Some k \<Rightarrow> k) @ str ''...'')) (\<lambda>_.
       and_then (generative_model env) (\<lambda>model.
       and_then (print (stdout env) (str '' Modelo configurado: '' @ model)) (\<lambda>_.
       and_then (generate_content env nivel_desc (take 1500 texto)) (\<lambda>response.
       procesar_respuesta env response texto nivel_educativo)))))"

text \<open>
  \<open>analizar_con_gemini\<close>. The \<open>except\<close> block diagnoses the exception, writes three
  lines and returns the Heuristic Scorer's report; an exception raised there is not
  caught.
\<close>

definition analizar_con_gemini :: "entorno \<Rightarrow> pystr \<Rightarrow> pystr \<Rightarrow> pyexc + resultado" where
  "analizar_con_gemini env texto nivel_educativo =
     (if strip texto = []
      then Inr (analisis_fallback texto nivel_educativo, False, str ''Texto vac'' @ [237] @ str ''o'')
      else
        let nivel_desc = (case niveles nivel_educativo of
                            None \<Rightarrow> str ''Nivel no especificado'' | Some d \<Rightarrow> d)
        in try_except (gemini_try env nivel_desc texto nivel_educativo)
             (\<lambda>e. let error_diagnostico =
                         diagnosticar_error_gemini (str_lower env) (exc_str e)
                   in and_then (prints (stdout env)
                         [[10060] @ str '' Error con Gemini: '' @ exc_str e,
                          [128269] @ str '' Diagn'' @ [243] @ str ''stico: '' @ error_diagnostico,
                          [128269] @ str '' Tipo de error: '' @ exc_type_name e])
                        (\<lambda>_. Inr (analisis_fallback texto nivel_educativo, False,
                                  error_diagnostico))))"

subsection \<open>The request handler\<close>

text \<open>
  The request as the handler reads it: the upload \<open>request.files.get("file")\<close>, with its
  name and the size \<open>file.tell()\<close> reports, and the form field \<open>request.form.get("nivel")\<close>.
  A Werkzeug upload with an empty name is falsy.

  Two more things come from outside: \<open>staged\<close>, the exception (if any) that creating the
  temporary file or \<open>file.save\<close> raised, and \<open>texto\<close>, the text \<open>extraer_texto\<close>
  returns for the staged file. The handler answers with a status and a JSON body;
  \<open>llamadas\<close> lists the pipeline stages it called on the way. The handler is modelled
  by the response it builds: the lines it writes itself to the standard output are left
  out. An exception that \<open>analizar_con_gemini\<close> raises is caught here and answered with
  status 500.
\<close>

record archivo =
  filename :: pystr
  file_size :: nat

record request =
  req_file :: "archivo option"
  req_nivel :: "pystr option"

datatype llamada = Extraer_texto | Analizar_con_gemini

record respuesta_http =
  status :: nat
  body :: json
  llamadas :: "llamada list"

definition error_json :: "pystr \<Rightarrow> json" where
  "error_json msg = JObj [(str ''error'', JStr msg)]"

definition no_se_pudo_extraer :: pystr where
  "no_se_pudo_extraer = str ''No se pudo extraer texto del documento''"

definition analizar :: "entorno \<Rightarrow> request \<Rightarrow> pyexc option \<Rightarrow> pystr \<Rightarrow> respuesta_http" where
  "analizar env req staged texto =
     (case req_file req of
        None \<Rightarrow>
          \<lparr>status = 400,
           body = error_json (str ''No se seleccion'' @ [243] @ str '' ning'' @ [250] @ str ''n archivo''),
           llamadas = []\<rparr>
      | Some file \<Rightarrow>
          if filename file = [] then
            \<lparr>status = 400,
             body = error_json (str ''No se seleccion'' @ [243] @ str '' ning'' @ [250] @ str ''n archivo''),
             llamadas = []\<rparr>
          else
            (case req_nivel req of
               None \<Rightarrow>
                 \<lparr>status = 400,
                  body = error_json (str ''Por favor selecciona un nivel educativo''),
                  llamadas = []\<rparr>
             | Some nivel \<Rightarrow>
                 if nivel = [] then
                   \<lparr>status = 400,
                    body = error_json (str ''Por favor selecciona un nivel educativo''),
                    llamadas = []\<rparr>
                 else if \<not> allowed_file (str_lower env) (filename file) then
                   \<lparr>status = 400,
                    body = error_json
                      (str ''Tipo de archivo no permitido. Use .txt, .docx, .pdf, .jpg, .png''),
                    llamadas = []\<rparr>
                 else if file_size file > MAX_FILE_SIZE then
                   \<lparr>status = 400,
                    body = error_json (str ''Archivo demasiado grande. M'' @ [225] @ str ''ximo 10MB''),
                    llamadas = []\<rparr>
                 else
                   (case staged of
                      Some e \<Rightarrow>
                        \<lparr>status = 500,
                         body = error_json (str ''Error procesando archivo: '' @ exc_str e),
                         llamadas = []\<rparr>
                    | None \<Rightarrow>
                        if texto = [] then
                          \<lparr>status = 200,
                           body = JObj
                             [(str ''porcentaje'', JInt 0),
                              (str ''color'', JStr (str ''gray'')),
                              (str ''label'', JStr (str ''No detectado'')),
                              (str ''indicadores'', JList [JStr no_se_pudo_extraer]),
                              (str ''preguntas'', JList []),
                              (str ''filename'', JStr (filename file)),
                              (str ''analizado_con_ia'', JBool False),
                              (str ''error_info'', JStr no_se_pudo_extraer)],
                           llamadas = [Extraer_texto]\<rparr>
                        else
                          (case analizar_con_gemini env texto nivel of
                             Inl e \<Rightarrow>
                               \<lparr>status = 500,
                                body = error_json (str ''Error procesando archivo: '' @ exc_str e),
                                llamadas = [Extraer_texto, Analizar_con_gemini]\<rparr>
                           | Inr (resultado, analizado_con_ia, error_info) \<Rightarrow>
                               (case resultado of
                                  JObj data \<Rightarrow>
                                    (let porcentaje = dict_get data (str ''porcentaje'') (JInt 50);
                                         label = dict_get data (str ''label'') (JStr (str ''medio''));
                                         color = dict_get data (str ''color'') (JStr (str ''gray''))
                                     in case label of
                                          JStr l \<Rightarrow>
                                            \<lparr>status = 200,
                                             body = JObj
                                               [(str ''porcentaje'', porcentaje),
                                                (str ''color'', color),
                                                (str ''label'', JStr (capitalize l)),
                                                (str ''indicadores'',
                                                   dict_get data (str ''indicadores'') (JList [])),
                                                (str ''preguntas'',
                                                   dict_get data (str ''preguntas'') (JList [])),
                                                (str ''filename'', JStr (filename file)),
                                                (str ''analizado_con_ia'', JBool analizado_con_ia),
                                                (str ''nivel_educativo'', JStr nivel),
                                                (str ''error_info'', JStr error_info),
                                                (str ''longitud_texto'',
                                                   dict_get data (str ''longitud_texto'') (JInt 0)),
                                                (str ''palabras_unicas'',
                                                   dict_get data (str ''palabras_unicas'') (JInt 0)),
                                                (str ''densidad_vocabulario'',
                                                   dict_get data (str ''densidad_vocabulario'') (JInt 0))],
                                             llamadas = [Extraer_texto, Analizar_con_gemini]\<rparr>
                                        | _ \<Rightarrow>
                                            \<lparr>status = 500,
                                             body = error_json (str ''Error procesando archivo: '' @
                                                      exc_str (no_attribute label ''capitalize'')),
                                             llamadas = [Extraer_texto, Analizar_con_gemini]\<rparr>)
                                | _ \<Rightarrow>
                                    \<lparr>status = 500,
                                     body = error_json (str ''Error procesando archivo: '' @
                                              exc_str (no_attribute resultado ''get'')),
                                     llamadas = [Extraer_texto, Analizar_con_gemini]\<rparr>)))))"

section \<open>Vocabulary of the specification\<close>

text \<open>\<open>campo r k\<close> reads the field \<open>k\<close> of a report.\<close>

definition campo :: "json \<Rightarrow> pystr \<Rightarrow> json option" where
  "campo r k = (case r of JObj d \<Rightarrow> map_of d k | _ \<Rightarrow> None)"

text \<open>The Heuristic Scorer's fourth test, as the program evaluates it (in floats).\<close>

definition repetitivo :: "pystr \<Rightarrow> bool" where
  "repetitivo texto \<longleftrightarrow>
     10 < length (split texto) \<and>
     py_truediv (card (set (split texto))) (length (split texto)) < float_0_6"

definition penalizacion :: "pystr \<Rightarrow> int" where
  "penalizacion texto =
     (if length texto < 100 then 20 else 0) +
     (if count_list texto 46 < 3 then 15 else 0) +
     (if card (set (split texto)) < 15 then 15 else 0) +
     (if repetitivo texto then 20 else 0)"

definition indicador_nivel :: "pystr \<Rightarrow> json" where
  "indicador_nivel nivel =
     (if nivel = str ''basica-1-4'' \<or> nivel = str ''basica-5-8'' then
        JStr (str ''An'' @ [225] @ str ''lisis b'' @ [225] @ str ''sico para nivel '' @ nivel)
      else if nivel = str ''medio-1-2'' \<or> nivel = str ''medio-3-4'' then
        JStr (str ''An'' @ [225] @ str ''lisis para educaci'' @ [243] @ str ''n media'')
      else JStr analisis_automatico_basico)"

definition indicadores_fallback :: "pystr \<Rightarrow> pystr \<Rightarrow> json list" where
  "indicadores_fallback texto nivel =
     (if length texto < 100 then [JStr (str ''Texto muy corto'')] else []) @
     (if count_list texto 46 < 3 then [JStr (str ''Pocos puntos (posible copia)'')] else []) @
     (if card (set (split texto)) < 15 then [JStr (str ''Vocabulario limitado'')] else []) @
     (if repetitivo texto
      then [JStr (str ''Mucha repetici'' @ [243] @ str ''n de palabras'')] else []) @
     [indicador_nivel nivel]"

text \<open>Vocabulary for the Response Normalizer and the Orchestrator: a JSON number, the
  comparison \<open>v < n\<close> where it succeeds, the report the normalizer builds from the
  parsed \<open>dict\<close>, the exception a failed comparison raises, a usable API key, and the
  outcome of the call to Gemini.\<close>

fun es_numero :: "json \<Rightarrow> bool" where
  "es_numero (JInt i) = True"
| "es_numero (JFloat f) = True"
| "es_numero (JBool b) = True"
| "es_numero v = False"

definition menor_que :: "json \<Rightarrow> int \<Rightarrow> bool" where
  "menor_que v n \<longleftrightarrow> py_lt_int v n = Inr True"

definition informe_ia :: "pydict \<Rightarrow> pystr \<Rightarrow> pystr \<Rightarrow> json" where
  "informe_ia d texto nivel =
     (let p = dict_get d (str ''porcentaje'') (JInt 50) in
      JObj
       [(str ''porcentaje'', p),
        (str ''color'', JStr (if menor_que p 50 then str ''green''
                              else if menor_que p 75 then str ''yellow'' else str ''red'')),
        (str ''label'', JStr (if menor_que p 50 then str ''Bajo''
                              else if menor_que p 75 then str ''Medio'' else str ''Alto'')),
        (str ''indicadores'', dict_get d (str ''indicadores'') (JList [])),
        (str ''preguntas'', dict_get d (str ''preguntas'') (JList [])),
        (str ''filename'', JStr []),
        (str ''analizado_con_ia'', JBool True),
        (str ''nivel_educativo'', JStr nivel),
        (str ''error_info'', JStr analisis_exitoso),
        (str ''longitud_texto'', JInt (int (length texto))),
        (str ''palabras_unicas'', JInt (int (card (set (split texto))))),
        (str ''densidad_vocabulario'', densidad_vocabulario texto)])"

definition error_comparacion :: "json \<Rightarrow> pyexc" where
  "error_comparacion v =
     TypeError (str [CHR 0x27, CHR ''<'', CHR 0x27] @
                     str '' not supported between instances of '' @
                     str [CHR 0x27] @ type_name v @ str [CHR 0x27] @ str '' and '' @
                     str [CHR 0x27] @ str ''int'' @ str [CHR 0x27])"

definition clave_configurada :: "entorno \<Rightarrow> bool" where
  "clave_configurada env \<longleftrightarrow>
     api_key env \<noteq> None \<and> api_key env \<noteq> Some [] \<and>
     api_key env \<noteq> Some (str ''tu_api_key_aqui'')"

definition llamada_gemini :: "entorno \<Rightarrow> pystr \<Rightarrow> pystr \<Rightarrow> pyexc + respuesta" where
  "llamada_gemini env texto nivel =
     (case generative_model env of
        Inl e \<Rightarrow> Inl e
      | Inr model \<Rightarrow>
         (case generate_content env
                 (case niveles nivel of None \<Rightarrow> str ''Nivel no especificado'' | Some d \<Rightarrow> d)
                 (take 1500 texto) of
            Inl e \<Rightarrow> Inl e
          | Inr (RespError e) \<Rightarrow> Inl e
          | Inr response \<Rightarrow> Inr response))"

definition error_transformando :: "pyexc \<Rightarrow> pystr" where
  "error_transformando e = str ''Error transformando respuesta: '' @ exc_str e"

text \<open>
  Environments for the examples. The standard output of the first three accepts every
  line. One has no API key, one has a Gemini client that fails with a quota error. The
  texts of \<open>repr\<close>, \<open>type\<close> and \<open>dir\<close> are those of simple cases.
\<close>

definition repr_simple :: "pystr \<Rightarrow> pystr" where
  "repr_simple s = [39] @ s @ [39]"

definition type_ejemplo :: "respuesta \<Rightarrow> pystr" where
  "type_ejemplo r =
     (if r = RespNone then str ''<class '' @ [39] @ str ''NoneType'' @ [39] @ str ''>''
      else str ''<class '' @ [39] @ str ''GenerateContentResponse'' @ [39] @ str ''>'')"

definition expecting_value :: pyexc where
  "expecting_value =
     LibraryError (str ''JSONDecodeError'') (str ''Expecting value: line 1 column 1 (char 0)'')"

definition entorno_sin_clave :: entorno where
  "entorno_sin_clave =
     \<lparr>str_lower = ascii_lower,
      json_loads = (\<lambda>s. Inl expecting_value),
      api_key = None,
      generative_model = Inr (str ''genai.GenerativeModel()''),
      generate_content = (\<lambda>d t. Inr RespNone),
      stdout = (\<lambda>linea. None),
      py_repr = repr_simple,
      str_type = type_ejemplo,
      str_dir = (\<lambda>r. str ''[]'')\<rparr>"

definition entorno_cuota :: entorno where
  "entorno_cuota =
     \<lparr>str_lower = ascii_lower,
      json_loads = (\<lambda>s. Inl expecting_value),
      api_key = Some (str ''clave''),
      generative_model = Inr (str ''genai.GenerativeModel()''),
      generate_content =
        (\<lambda>d t. Inl (LibraryError (str ''ResourceExhausted'') (str ''429 Quota exceeded''))),
      stdout = (\<lambda>linea. None),
      py_repr = repr_simple,
      str_type = type_ejemplo,
      str_dir = (\<lambda>r. str ''[]'')\<rparr>"








text \<open>
  The lines the two \<open>except\<close> blocks write, a standard output that accepts every line,
  and the outcome of the calls to the Gemini client up to the response.
\<close>

definition linea_error_transformando :: "pyexc \<Rightarrow> pystr" where
  "linea_error_transformando e =
     [10060] @ str '' Error transformando respuesta: '' @ exc_str e"

definition lineas_error_gemini :: "entorno \<Rightarrow> pyexc \<Rightarrow> pystr list" where
  "lineas_error_gemini env e =
     [[10060] @ str '' Error con Gemini: '' @ exc_str e,
      [128269] @ str '' Diagn'' @ [243] @ str ''stico: '' @
        diagnosticar_error_gemini (str_lower env) (exc_str e),
      [128269] @ str '' Tipo de error: '' @ exc_type_name e]"

definition acepta :: "(pystr \<Rightarrow> pyexc option) \<Rightarrow> bool" where
  "acepta out \<longleftrightarrow> (\<forall>linea. out linea = None)"



definition loads_82 :: "pystr \<Rightarrow> pyexc + json" where
  "loads_82 s = Inr (JObj [(str ''porcentaje'', JInt 82)])"




text \<open>
  A request that passes the handler's checks, the numeric value of a JSON number and the
  tier table of the specification. Below them, requests and an environment for the
  examples: an empty text file, a small text file, and a Gemini client that answers with
  a JSON object holding a null.
\<close>

definition aceptada :: "entorno \<Rightarrow> request \<Rightarrow> archivo \<Rightarrow> pystr \<Rightarrow> bool" where
  "aceptada env req f n \<longleftrightarrow>
     req_file req = Some f \<and> filename f \<noteq> [] \<and> req_nivel req = Some n \<and> n \<noteq> [] \<and>
     allowed_file (str_lower env) (filename f) \<and> file_size f \<le> MAX_FILE_SIZE"

fun valor_numerico :: "json \<Rightarrow> rat option" where
  "valor_numerico (JInt i) = Some (of_int i)"
| "valor_numerico (JFloat (Finite q)) = Some q"
| "valor_numerico (JBool b) = Some (if b then 1 else 0)"
| "valor_numerico v = None"

definition nivel_spec :: "rat \<Rightarrow> (pystr \<times> pystr) option" where
  "nivel_spec p =
     (if 0 \<le> p \<and> p < 50 then Some (str ''green'', str ''Bajo'')
      else if 50 \<le> p \<and> p < 75 then Some (str ''yellow'', str ''Medio'')
      else if 75 \<le> p \<and> p \<le> 100 then Some (str ''red'', str ''Alto'')
      else None)"

text \<open>
  \<open>nivel_codigo p\<close> is the pair of colour and label that the thresholds 50 and 75 give
  for the JSON number \<open>p\<close>. \<open>tier_de_porcentaje r\<close> says of a report \<open>r\<close>: it has a
  percentage, which is a number; it has a colour and a label, and they are those the
  thresholds give for that percentage; and for a percentage in [0,100] they are those of
  the table of the specification.
\<close>

definition nivel_codigo :: "json \<Rightarrow> pystr \<times> pystr" where
  "nivel_codigo p =
     (if menor_que p 50 then (str ''green'', str ''Bajo'')
      else if menor_que p 75 then (str ''yellow'', str ''Medio'')
      else (str ''red'', str ''Alto''))"

definition tier_de_porcentaje :: "json \<Rightarrow> bool" where
  "tier_de_porcentaje r =
     (case campo r (str ''porcentaje'') of
        None \<Rightarrow> False
      | Some p \<Rightarrow>
          es_numero p \<and>
          campo r (str ''color'') = Some (JStr (fst (nivel_codigo p))) \<and>
          campo r (str ''label'') = Some (JStr (snd (nivel_codigo p))) \<and>
          (case valor_numerico p of
             None \<Rightarrow> True
           | Some q \<Rightarrow> 0 \<le> q \<and> q \<le> 100 \<longrightarrow> nivel_spec q = Some (nivel_codigo p)))"

definition json_nulo :: pystr where
  "json_nulo = str ''{'' @ [34] @ str ''porcentaje'' @ [34] @ str '': 80, '' @ [34] @
     str ''indicadores'' @ [34] @ str '': null}''"

definition entorno_nulo :: entorno where
  "entorno_nulo =
     \<lparr>str_lower = ascii_lower,
      json_loads = (\<lambda>s. if s = json_nulo
                         then Inr (JObj [(str ''porcentaje'', JInt 80), (str ''indicadores'', JNull)])
                         else Inl expecting_value),
      api_key = Some (str ''clave''),
      generative_model = Inr (str ''genai.GenerativeModel()''),
      generate_content = (\<lambda>d t. Inr (RespTexto (Some json_nulo))),
      stdout = (\<lambda>linea. None),
      py_repr = repr_simple,
      str_type = type_ejemplo,
      str_dir = (\<lambda>r. str ''[]'')\<rparr>"

definition peticion_vacia :: request where
  "peticion_vacia =
     \<lparr>req_file = Some \<lparr>filename = str ''vacio.txt'', file_size = 0\<rparr>,
      req_nivel = Some (str ''basica-1-4'')\<rparr>"

definition peticion_hola :: request where
  "peticion_hola =
     \<lparr>req_file = Some \<lparr>filename = str ''hola.txt'', file_size = 5\<rparr>,
      req_nivel = Some (str ''superior'')\<rparr>"

text \<open>
  The cleaning step in the words of the specification: the replacement of the escape
  sequences, the removal of a leading and a trailing fence marker, and their
  composition with the trim. A fenced response with three backticks inside a string.
\<close>

definition desescapar :: "pystr \<Rightarrow> pystr" where
  "desescapar s = replace [92, 116] [9] (replace [92, 110] [10] s)"

definition quitar_cerca_spec :: "pystr \<Rightarrow> pystr" where
  "quitar_cerca_spec s =
     (if startswith s (str ''```json'') then
        (let b = drop 7 s in if endswith b (str ''```'') then take (length b - 3) b else b)
      else s)"

definition limpiar_spec :: "pystr \<Rightarrow> pystr" where
  "limpiar_spec s = desescapar (strip (quitar_cerca_spec s))"

definition respuesta_con_cerca_interior :: pystr where
  "respuesta_con_cerca_interior =
     str ''```json['' @ [34] @ str ''a```b'' @ [34] @ str '']```''"

section \<open>Properties\<close>

subsection \<open>Strings and dictionaries\<close>

lemma str_eq_iff [simp]: "str a = str b \<longleftrightarrow> a = b"
  by (simp add: str_def inj_map_eq_map [OF inj_of_char])

lemma str_Nil [simp]: "str [] = []"
  by (simp add: str_def)

lemma str_eq_Nil [simp]: "str a = [] \<longleftrightarrow> a = []" "[] = str a \<longleftrightarrow> a = []"
  by (auto simp add: str_def)

lemma campo_Cons:
  "campo (JObj ((k, v) # d)) k' = (if k' = k then Some v else campo (JObj d) k')"
  by (simp add: campo_def)

lemma campo_Nil: "campo (JObj []) k = None"
  by (simp add: campo_def)

lemma capitalize_tiers:
  "capitalize (str ''bajo'') = str ''Bajo''"
  "capitalize (str ''medio'') = str ''Medio''"
  "capitalize (str ''alto'') = str ''Alto''"
  "capitalize (str ''Bajo'') = str ''Bajo''"
  "capitalize (str ''Medio'') = str ''Medio''"
  "capitalize (str ''Alto'') = str ''Alto''"
  by (simp_all add: str_def upper_cp_def lower_cp_def)

subsection \<open>The Heuristic Scorer in closed form\<close>

lemma penalizacion_range: "0 \<le> penalizacion texto" "penalizacion texto \<le> 70"
  by (simp_all add: penalizacion_def)

lemma analisis_fallback_form:
  "analisis_fallback texto nivel = JObj
     [(str ''porcentaje'', JInt (min (50 + penalizacion texto) 100)),
      (str ''color'', JStr (if 50 + penalizacion texto < 75 then str ''yellow'' else str ''red'')),
      (str ''label'', JStr (if 50 + penalizacion texto < 75 then str ''Medio'' else str ''Alto'')),
      (str ''indicadores'', JList (indicadores_fallback texto nivel)),
      (str ''preguntas'', JList preguntas_fallback),
      (str ''filename'', JStr []),
      (str ''analizado_con_ia'', JBool False),
      (str ''nivel_educativo'', JStr nivel),
      (str ''error_info'', JStr (str ''An'' @ [225] @ str ''lisis autom'' @ [225] @
                                str ''tico (fallback)'')),
      (str ''longitud_texto'', JInt (int (length texto))),
      (str ''palabras_unicas'', JInt (int (card (set (split texto))))),
      (str ''densidad_vocabulario'', densidad_vocabulario texto)]"
proof -
  have if_pair: "\<And>c (a :: json list) (b :: int) a' b'.
     (if c then (a, b) else (a', b')) = (if c then a else a', if c then b else b')"
    by simp
  have lvl: "\<And>(n1::bool) n2 (i::json list) a b c.
      (if n1 then i @ [a] else if n2 then i @ [b] else i @ [c]) =
      i @ [if n1 then a else if n2 then b else c]"
    by simp
  define c1 where "c1 \<longleftrightarrow> length texto < 100"
  define c2 where "c2 \<longleftrightarrow> count_list texto 46 < 3"
  define c3 where "c3 \<longleftrightarrow> card (set (split texto)) < 15"
  define c4 where "c4 \<longleftrightarrow> 10 < length (split texto)"
  define c5 where
    "c5 \<longleftrightarrow> py_truediv (card (set (split texto))) (length (split texto)) < float_0_6"
  show ?thesis
    unfolding analisis_fallback_def penalizacion_def indicadores_fallback_def repetitivo_def
      Let_def if_pair prod.case
      c1_def [symmetric] c2_def [symmetric] c3_def [symmetric] c4_def [symmetric]
      c5_def [symmetric]
    apply (simp only: json.inject list.inject prod.inject simp_thms)
    apply (intro conjI)
    subgoal by simp
    subgoal by simp
    subgoal by (simp add: capitalize_tiers)
    subgoal
      apply (simp only: list.set insert_iff empty_iff simp_thms lvl indicador_nivel_def)
      apply (simp only: append_is_Nil_conv list.distinct simp_thms if_True if_False
          json.inject list.inject)
      apply simp
      done
    done
qed

lemma fallback_porcentaje:
  "campo (analisis_fallback texto nivel) (str ''porcentaje'') =
     Some (JInt (min (50 + penalizacion texto) 100))"
  by (simp add: analisis_fallback_form campo_Cons)

lemma fallback_color:
  "campo (analisis_fallback texto nivel) (str ''color'') =
     Some (JStr (if 50 + penalizacion texto < 75 then str ''yellow'' else str ''red''))"
  by (simp add: analisis_fallback_form campo_Cons)

lemma fallback_label:
  "campo (analisis_fallback texto nivel) (str ''label'') =
     Some (JStr (if 50 + penalizacion texto < 75 then str ''Medio'' else str ''Alto''))"
  by (simp add: analisis_fallback_form campo_Cons)

lemma fallback_indicadores:
  "campo (analisis_fallback texto nivel) (str ''indicadores'') =
     Some (JList (indicadores_fallback texto nivel))"
  by (simp add: analisis_fallback_form campo_Cons)


lemma fallback_densidad:
  "campo (analisis_fallback texto nivel) (str ''densidad_vocabulario'') =
     Some (densidad_vocabulario texto)"
  by (simp add: analisis_fallback_form campo_Cons)

subsection \<open>The fallback path reports the Medium or the High tier\<close>

text \<open>
  Claim C10. For every text and level, the percentage the Heuristic Scorer reports is an
  integer between 50 and 100; its colour is never \<open>green\<close> and its label never \<open>Bajo\<close>:
  the report shows the tier (\<open>yellow\<close>, \<open>Medio\<close>) or the tier (\<open>red\<close>, \<open>Alto\<close>).
\<close>

theorem fallback_medium_or_high:
  "\<exists>p c l.
     campo (analisis_fallback texto nivel) (str ''porcentaje'') = Some (JInt p) \<and>
     50 \<le> p \<and> p \<le> 100 \<and>
     campo (analisis_fallback texto nivel) (str ''color'') = Some (JStr c) \<and>
     campo (analisis_fallback texto nivel) (str ''label'') = Some (JStr l) \<and>
     c \<noteq> str ''green'' \<and> l \<noteq> str ''Bajo'' \<and>
     ((c = str ''yellow'' \<and> l = str ''Medio'') \<or> (c = str ''red'' \<and> l = str ''Alto''))"
  using penalizacion_range [of texto]
  by (simp add: fallback_porcentaje fallback_color fallback_label)

subsection \<open>Sequencing and the standard output\<close>

lemma and_then_Inr [simp]: "and_then (Inr v) rest = rest v"
  by (simp add: and_then_def)

lemma and_then_Inl [simp]: "and_then (Inl e) rest = Inl e"
  by (simp add: and_then_def)

lemma and_then_eq_Inr: "and_then first rest = Inr y \<longleftrightarrow> (\<exists>v. first = Inr v \<and> rest v = Inr y)"
  by (cases first) simp_all

lemma print_Inl: "print out linea = Inl x \<longleftrightarrow> out linea = Some x"
  by (simp add: print_def split: option.split)

lemma print_Inr: "print out linea = Inr u \<longleftrightarrow> out linea = None"
  by (simp add: print_def split: option.split)

lemma print_acepta: "acepta out \<Longrightarrow> print out linea = Inr ()"
  by (simp add: print_def acepta_def)

lemma prints_acepta: "acepta out \<Longrightarrow> prints out lineas = Inr ()"
  by (induction lineas) (simp_all add: print_acepta)

lemma prints_Inl: "prints out lineas = Inl x \<Longrightarrow> \<exists>linea. linea \<in> set lineas \<and> out linea = Some x"
proof (induction lineas)
  case Nil
  then show ?case by simp
next
  case (Cons l ls)
  show ?case
  proof (cases "out l")
    case None
    with Cons show ?thesis by (auto simp add: print_def)
  next
    case (Some e)
    with Cons show ?thesis by (auto simp add: print_def)
  qed
qed




subsection \<open>The Response Normalizer and the Orchestrator, case by case\<close>

lemma py_lt_int_numero:
  "es_numero v \<Longrightarrow> py_lt_int v n = Inr (menor_que v n)"
  by (cases v) (auto simp add: menor_que_def)

lemma py_lt_int_no_numero:
  "\<not> es_numero v \<Longrightarrow> py_lt_int v n = Inl (error_comparacion v)"
  by (cases v) (simp_all add: error_comparacion_def)

lemma transformar_try_loads_error:
  "ld resp = Inl e \<Longrightarrow> transformar_try ld resp texto nivel = Inl e"
  by (simp add: transformar_try_def)

lemma transformar_try_no_dict:
  "ld resp = Inr v \<Longrightarrow> \<forall>d. v \<noteq> JObj d \<Longrightarrow>
   transformar_try ld resp texto nivel = Inl (no_attribute v ''get'')"
  by (cases v) (simp_all add: transformar_try_def)

lemma transformar_try_no_numero:
  "ld resp = Inr (JObj d) \<Longrightarrow> \<not> es_numero (dict_get d (str ''porcentaje'') (JInt 50)) \<Longrightarrow>
   transformar_try ld resp texto nivel =
     Inl (error_comparacion (dict_get d (str ''porcentaje'') (JInt 50)))"
  by (simp add: transformar_try_def Let_def py_lt_int_no_numero)

lemma transformar_try_numero:
  "ld resp = Inr (JObj d) \<Longrightarrow> es_numero (dict_get d (str ''porcentaje'') (JInt 50)) \<Longrightarrow>
   transformar_try ld resp texto nivel = Inr (informe_ia d texto nivel, True, analisis_exitoso)"
  by (simp add: transformar_try_def Let_def py_lt_int_numero informe_ia_def)

lemma transformar_result:
  "transformar_respuesta_gemini out ld resp texto nivel =
     (case transformar_try ld resp texto nivel of
        Inl e \<Rightarrow>
          (case out (linea_error_transformando e) of
             None \<Rightarrow> Inr (analisis_fallback texto nivel, False, error_transformando e)
           | Some x \<Rightarrow> Inl x)
      | Inr r \<Rightarrow> Inr r)"
  by (simp add: transformar_respuesta_gemini_def try_except_def error_transformando_def
      linea_error_transformando_def print_def and_then_def split: sum.split option.split)

lemma transformar_try_Inr:
  assumes "transformar_try ld resp texto nivel = Inr x"
  shows "\<exists>d. ld resp = Inr (JObj d) \<and> es_numero (dict_get d (str ''porcentaje'') (JInt 50)) \<and>
             x = (informe_ia d texto nivel, True, analisis_exitoso)"
proof (cases "ld resp")
  case (Inl e)
  with assms show ?thesis by (simp add: transformar_try_loads_error)
next
  case (Inr v)
  show ?thesis
  proof (cases "\<exists>d. v = JObj d")
    case False
    with Inr assms show ?thesis by (simp add: transformar_try_no_dict)
  next
    case True
    then obtain d where d: "v = JObj d" ..
    show ?thesis
    proof (cases "es_numero (dict_get d (str ''porcentaje'') (JInt 50))")
      case True
      with Inr d assms show ?thesis by (simp add: transformar_try_numero)
    next
      case False
      with Inr d assms show ?thesis by (simp add: transformar_try_no_numero)
    qed
  qed
qed

lemma transformar_returns:
  "acepta out \<Longrightarrow> \<exists>r. transformar_respuesta_gemini out ld resp texto nivel = Inr r"
  by (cases "transformar_try ld resp texto nivel") (auto simp add: transformar_result acepta_def)


lemma transformar_flag_True:
  assumes "transformar_respuesta_gemini out ld resp texto nivel = Inr (r, True, m)"
  shows "\<exists>d. ld resp = Inr (JObj d) \<and> es_numero (dict_get d (str ''porcentaje'') (JInt 50)) \<and>
             r = informe_ia d texto nivel \<and> m = analisis_exitoso"
  using assms transformar_try_Inr [of ld resp texto nivel]
  by (auto simp add: transformar_result split: sum.splits option.splits)

lemma transformar_flag_False:
  assumes "transformar_respuesta_gemini out ld resp texto nivel = Inr (r, False, m)"
  shows "r = analisis_fallback texto nivel \<and>
         (\<exists>e. transformar_try ld resp texto nivel = Inl e \<and> m = error_transformando e)"
  using assms transformar_try_Inr [of ld resp texto nivel]
  by (auto simp add: transformar_result split: sum.splits option.splits)

lemma strip_Nil [simp]: "strip [] = []"
  by (simp add: strip_def)

lemma strip_Nil_iff: "(t = [] \<or> strip t = []) \<longleftrightarrow> strip t = []"
  by auto

lemma procesar_respuesta_acepta:
  assumes "acepta (stdout env)"
  shows "procesar_respuesta env response texto nivel =
     (case response of
        RespNone \<Rightarrow> Inr (analisis_fallback texto nivel, False, respuesta_vacia)
      | RespSinTexto \<Rightarrow>
          Inr (analisis_fallback texto nivel, False, str ''Respuesta de Gemini no tiene texto'')
      | RespError e \<Rightarrow> Inl e
      | RespTexto None \<Rightarrow> Inr (analisis_fallback texto nivel, False, respuesta_vacia)
      | RespTexto (Some t) \<Rightarrow>
          if strip t = [] then Inr (analisis_fallback texto nivel, False, respuesta_vacia)
          else transformar_respuesta_gemini (stdout env) (json_loads env)
                 (limpiar_respuesta_gemini t) texto nivel)"
  unfolding procesar_respuesta_def
  by (simp add: prints_acepta [OF assms] print_acepta [OF assms] Let_def strip_Nil_iff
      del: prints.simps split: respuesta.split option.split)

lemma procesar_respuesta_False:
  assumes "procesar_respuesta env response texto nivel = Inr (r, False, m)"
  shows "r = analisis_fallback texto nivel"
  using assms unfolding procesar_respuesta_def
  by (auto simp add: and_then_eq_Inr Let_def simp del: prints.simps
      split: respuesta.splits option.splits if_splits dest: transformar_flag_False)

lemma procesar_respuesta_True:
  assumes "procesar_respuesta env response texto nivel = Inr (r, True, m)"
  shows "\<exists>t d. response = RespTexto (Some t) \<and> strip t \<noteq> [] \<and>
           json_loads env (limpiar_respuesta_gemini t) = Inr (JObj d) \<and>
           es_numero (dict_get d (str ''porcentaje'') (JInt 50)) \<and>
           r = informe_ia d texto nivel \<and> m = analisis_exitoso"
  using assms unfolding procesar_respuesta_def
  by (auto simp add: and_then_eq_Inr Let_def simp del: prints.simps
      split: respuesta.splits option.splits if_splits dest: transformar_flag_True)


lemma gemini_try_con_clave:
  assumes "acepta (stdout env)" and "clave_configurada env"
  shows "gemini_try env d texto nivel =
     (case generative_model env of
        Inl e \<Rightarrow> Inl e
      | Inr model \<Rightarrow>
         (case generate_content env d (take 1500 texto) of
            Inl e \<Rightarrow> Inl e
          | Inr response \<Rightarrow> procesar_respuesta env response texto nivel))"
proof -
  from assms(2) have k: "\<not> (api_key env = None \<or> api_key env = Some [] \<or>
                    api_key env = Some (str ''tu_api_key_aqui''))"
    by (simp add: clave_configurada_def)
  show ?thesis
    unfolding gemini_try_def if_not_P [OF k]
    by (simp add: prints_acepta [OF assms(1)] print_acepta [OF assms(1)]
        del: prints.simps split: sum.split)
qed

lemma gemini_try_False:
  assumes "gemini_try env d texto nivel = Inr (r, False, m)"
  shows "r = analisis_fallback texto nivel"
  using assms unfolding gemini_try_def
  by (auto simp add: and_then_eq_Inr simp del: prints.simps
      split: if_splits dest: procesar_respuesta_False)

lemma gemini_try_True:
  assumes "gemini_try env d texto nivel = Inr (r, True, m)"
  shows "\<exists>model t dd. clave_configurada env \<and> generative_model env = Inr model \<and>
           generate_content env d (take 1500 texto) = Inr (RespTexto (Some t)) \<and>
           strip t \<noteq> [] \<and>
           json_loads env (limpiar_respuesta_gemini t) = Inr (JObj dd) \<and>
           es_numero (dict_get dd (str ''porcentaje'') (JInt 50)) \<and>
           r = informe_ia dd texto nivel \<and> m = analisis_exitoso"
  using assms unfolding gemini_try_def
  by (auto simp add: and_then_eq_Inr clave_configurada_def simp del: prints.simps
      split: if_splits dest!: procesar_respuesta_True)

lemma analizar_con_gemini_vacio:
  "strip texto = [] \<Longrightarrow>
   analizar_con_gemini env texto nivel =
     Inr (analisis_fallback texto nivel, False, str ''Texto vac'' @ [237] @ str ''o'')"
  by (simp add: analizar_con_gemini_def)

lemma analizar_con_gemini_try:
  "strip texto \<noteq> [] \<Longrightarrow>
   analizar_con_gemini env texto nivel =
     (case gemini_try env
             (case niveles nivel of None \<Rightarrow> str ''Nivel no especificado'' | Some d \<Rightarrow> d)
             texto nivel of
        Inl e \<Rightarrow>
          (case prints (stdout env) (lineas_error_gemini env e) of
             Inl x \<Rightarrow> Inl x
           | Inr u \<Rightarrow> Inr (analisis_fallback texto nivel, False,
                           diagnosticar_error_gemini (str_lower env) (exc_str e)))
      | Inr r \<Rightarrow> Inr r)"
  by (simp add: analizar_con_gemini_def Let_def try_except_def lineas_error_gemini_def
      and_then_def del: prints.simps split: sum.split)


lemma analizar_con_gemini_llamada:
  assumes "acepta (stdout env)" and "strip texto \<noteq> []" and "clave_configurada env"
  shows "analizar_con_gemini env texto nivel =
     (case llamada_gemini env texto nivel of
        Inl e \<Rightarrow> Inr (analisis_fallback texto nivel, False,
                      diagnosticar_error_gemini (str_lower env) (exc_str e))
      | Inr RespNone \<Rightarrow> Inr (analisis_fallback texto nivel, False, respuesta_vacia)
      | Inr RespSinTexto \<Rightarrow>
          Inr (analisis_fallback texto nivel, False, str ''Respuesta de Gemini no tiene texto'')
      | Inr (RespError e) \<Rightarrow>
          Inr (analisis_fallback texto nivel, False,
               diagnosticar_error_gemini (str_lower env) (exc_str e))
      | Inr (RespTexto None) \<Rightarrow> Inr (analisis_fallback texto nivel, False, respuesta_vacia)
      | Inr (RespTexto (Some t)) \<Rightarrow>
          if strip t = [] then Inr (analisis_fallback texto nivel, False, respuesta_vacia)
          else transformar_respuesta_gemini (stdout env) (json_loads env)
                 (limpiar_respuesta_gemini t) texto nivel)"
proof -
  note a = assms(1)
  have tr: "\<And>t x. transformar_respuesta_gemini (stdout env) (json_loads env) t texto nivel \<noteq> Inl x"
  proof -
    fix t x
    from transformar_returns [OF a] obtain r where
      "transformar_respuesta_gemini (stdout env) (json_loads env) t texto nivel = Inr r"
      by blast
    then show "transformar_respuesta_gemini (stdout env) (json_loads env) t texto nivel \<noteq> Inl x"
      by simp
  qed
  show ?thesis
    unfolding analizar_con_gemini_try [OF assms(2)] gemini_try_con_clave [OF a assms(3)]
      llamada_gemini_def
    by (simp add: procesar_respuesta_acepta [OF a] prints_acepta [OF a] tr
        del: prints.simps split: sum.split respuesta.split option.split)
qed



lemma orchestrator_fallback_report:
  assumes "analizar_con_gemini env texto nivel = Inr (r, False, m)"
  shows "r = analisis_fallback texto nivel"
proof (cases "strip texto = []")
  case True
  with assms show ?thesis by (simp add: analizar_con_gemini_vacio)
next
  case False
  with assms show ?thesis
    by (auto simp add: analizar_con_gemini_try simp del: prints.simps split: sum.splits
        dest: gemini_try_False)
qed

lemma orchestrator_ia_report:
  assumes "analizar_con_gemini env texto nivel = Inr (r, True, m)"
  shows "\<exists>t' d. strip texto \<noteq> [] \<and> clave_configurada env \<and>
         llamada_gemini env texto nivel = Inr (RespTexto (Some t')) \<and> strip t' \<noteq> [] \<and>
         json_loads env (limpiar_respuesta_gemini t') = Inr (JObj d) \<and>
         es_numero (dict_get d (str ''porcentaje'') (JInt 50)) \<and>
         r = informe_ia d texto nivel \<and> m = analisis_exitoso"
proof (cases "strip texto = []")
  case True
  with assms show ?thesis by (simp add: analizar_con_gemini_vacio)
next
  case False
  with assms have "gemini_try env
      (case niveles nivel of None \<Rightarrow> str ''Nivel no especificado'' | Some d \<Rightarrow> d)
      texto nivel = Inr (r, True, m)"
    by (auto simp add: analizar_con_gemini_try simp del: prints.simps split: sum.splits)
  from gemini_try_True [OF this] False show ?thesis
    by (auto simp add: llamada_gemini_def)
qed


subsection \<open>A failed transformation falls back\<close>






lemma strip_hola: "strip (str ''Hola.'') \<noteq> []"
  by (simp add: strip_def str_def isspace_def)

subsection \<open>The Orchestrator falls back\<close>








subsection \<open>The Heuristic Scorer does not depend on the run\<close>

lemma len_py_set: "length (py_set h xs) = card (set xs)"
proof -
  have "length (py_set h xs) = length (remdups (rev xs))"
    by (simp add: py_set_def)
  also have "\<dots> = card (set (rev xs))"
    by (rule length_remdups_card_conv)
  finally show ?thesis by simp
qed

lemma densidad_vocabulario_run_eq:
  "densidad_vocabulario_run h texto = densidad_vocabulario texto"
  by (simp add: densidad_vocabulario_run_def densidad_vocabulario_def len_py_set)

lemma analisis_fallback_run_eq:
  "analisis_fallback_run h texto nivel = analisis_fallback texto nivel"
  unfolding analisis_fallback_run_def analisis_fallback_def len_py_set
    densidad_vocabulario_run_eq ..

text \<open>
  Claim C9. \<open>analisis_fallback\<close> is deterministic and free of side effects: two runs on
  the same text and level return identical reports. What two runs of the function can
  differ in is the hash function of their strings, and with it the order of every set
  they build; the function writes no line, reads nothing but its two arguments and only
  takes the length of its sets. So the reports of two runs \<open>h\<close> and \<open>h'\<close> are the same
  value, the one \<open>analisis_fallback\<close> gives for the text and the level.
\<close>

theorem fallback_deterministic:
  "analisis_fallback_run h texto nivel = analisis_fallback_run h' texto nivel \<and>
   analisis_fallback_run h texto nivel = analisis_fallback texto nivel"
  by (simp add: analisis_fallback_run_eq)

subsection \<open>Invalid requests are rejected before the pipeline\<close>





subsection \<open>The request handler, case by case\<close>

lemma analizar_sin_texto:
  "aceptada env req f n \<Longrightarrow>
   analizar env req None [] =
     \<lparr>status = 200,
      body = JObj
        [(str ''porcentaje'', JInt 0),
         (str ''color'', JStr (str ''gray'')),
         (str ''label'', JStr (str ''No detectado'')),
         (str ''indicadores'', JList [JStr no_se_pudo_extraer]),
         (str ''preguntas'', JList []),
         (str ''filename'', JStr (filename f)),
         (str ''analizado_con_ia'', JBool False),
         (str ''error_info'', JStr no_se_pudo_extraer)],
      llamadas = [Extraer_texto]\<rparr>"
  by (simp add: analizar_def aceptada_def)

lemma analizar_informe:
  "aceptada env req f n \<Longrightarrow> texto \<noteq> [] \<Longrightarrow>
   analizar_con_gemini env texto n = Inr (JObj data, ok, msg) \<Longrightarrow>
   dict_get data (str ''label'') (JStr (str ''medio'')) = JStr l \<Longrightarrow>
   analizar env req None texto =
     \<lparr>status = 200,
      body = JObj
        [(str ''porcentaje'', dict_get data (str ''porcentaje'') (JInt 50)),
         (str ''color'', dict_get data (str ''color'') (JStr (str ''gray''))),
         (str ''label'', JStr (capitalize l)),
         (str ''indicadores'', dict_get data (str ''indicadores'') (JList [])),
         (str ''preguntas'', dict_get data (str ''preguntas'') (JList [])),
         (str ''filename'', JStr (filename f)),
         (str ''analizado_con_ia'', JBool ok),
         (str ''nivel_educativo'', JStr n),
         (str ''error_info'', JStr msg),
         (str ''longitud_texto'', dict_get data (str ''longitud_texto'') (JInt 0)),
         (str ''palabras_unicas'', dict_get data (str ''palabras_unicas'') (JInt 0)),
         (str ''densidad_vocabulario'', dict_get data (str ''densidad_vocabulario'') (JInt 0))],
      llamadas = [Extraer_texto, Analizar_con_gemini]\<rparr>"
  by (simp add: analizar_def aceptada_def Let_def)

lemma analizar_200_pipeline:
  assumes "status (analizar env req staged texto) = 200"
    and "Analizar_con_gemini \<in> set (llamadas (analizar env req staged texto))"
  shows "\<exists>f n data ok msg l. aceptada env req f n \<and> staged = None \<and> texto \<noteq> [] \<and>
     analizar_con_gemini env texto n = Inr (JObj data, ok, msg) \<and>
     dict_get data (str ''label'') (JStr (str ''medio'')) = JStr l"
  using assms
  by (auto simp add: analizar_def aceptada_def Let_def
      split: option.splits if_splits sum.splits prod.splits json.splits)

lemma menor_que_valor:
  "valor_numerico v = Some q \<Longrightarrow> menor_que v n \<longleftrightarrow> q < of_int n"
  by (cases v rule: valor_numerico.cases) (auto simp add: menor_que_def)

lemma dict_get_campo:
  "dict_get d k dflt = (case campo (JObj d) k of None \<Rightarrow> dflt | Some v \<Rightarrow> v)"
  by (simp add: dict_get_def campo_def)

lemma informe_ia_campos:
  "campo (informe_ia d texto nivel) (str ''porcentaje'') =
     Some (dict_get d (str ''porcentaje'') (JInt 50))"
  "campo (informe_ia d texto nivel) (str ''color'') =
     Some (JStr (if menor_que (dict_get d (str ''porcentaje'') (JInt 50)) 50 then str ''green''
                 else if menor_que (dict_get d (str ''porcentaje'') (JInt 50)) 75
                      then str ''yellow'' else str ''red''))"
  "campo (informe_ia d texto nivel) (str ''label'') =
     Some (JStr (if menor_que (dict_get d (str ''porcentaje'') (JInt 50)) 50 then str ''Bajo''
                 else if menor_que (dict_get d (str ''porcentaje'') (JInt 50)) 75
                      then str ''Medio'' else str ''Alto''))"
  "campo (informe_ia d texto nivel) (str ''analizado_con_ia'') = Some (JBool True)"
  "campo (informe_ia d texto nivel) (str ''densidad_vocabulario'') =
     Some (densidad_vocabulario texto)"
  by (simp_all add: informe_ia_def Let_def campo_Cons)

lemma nivel_codigo_casos:
  "nivel_codigo p = (str ''green'', str ''Bajo'') \<or>
   nivel_codigo p = (str ''yellow'', str ''Medio'') \<or>
   nivel_codigo p = (str ''red'', str ''Alto'')"
  by (simp add: nivel_codigo_def)

lemma capitalize_nivel_codigo: "capitalize (snd (nivel_codigo p)) = snd (nivel_codigo p)"
  using nivel_codigo_casos [of p] by (auto simp add: capitalize_tiers)

lemma nivel_codigo_spec:
  assumes "valor_numerico p = Some q" and "0 \<le> q" and "q \<le> 100"
  shows "nivel_spec q = Some (nivel_codigo p)"
  using assms by (auto simp add: nivel_spec_def nivel_codigo_def menor_que_valor)

lemma tier_de_porcentaje_intro:
  assumes "campo r (str ''porcentaje'') = Some p" and "es_numero p"
    and "campo r (str ''color'') = Some (JStr (fst (nivel_codigo p)))"
    and "campo r (str ''label'') = Some (JStr (snd (nivel_codigo p)))"
  shows "tier_de_porcentaje r"
  using assms by (auto simp add: tier_de_porcentaje_def nivel_codigo_spec split: option.split)

lemma tier_de_porcentaje_elim:
  assumes "tier_de_porcentaje r"
  shows "\<exists>p. campo r (str ''porcentaje'') = Some p \<and> es_numero p \<and>
             campo r (str ''color'') = Some (JStr (fst (nivel_codigo p))) \<and>
             campo r (str ''label'') = Some (JStr (snd (nivel_codigo p)))"
  using assms by (auto simp add: tier_de_porcentaje_def split: option.splits)

lemma tier_tabla:
  assumes "tier_de_porcentaje rr" and "campo rr (str ''porcentaje'') = Some pp"
    and "valor_numerico pp = Some q" and "nivel_spec q = Some (c, l)"
  shows "campo rr (str ''color'') = Some (JStr c) \<and> campo rr (str ''label'') = Some (JStr l)"
proof -
  from assms(4) have r: "0 \<le> q \<and> q \<le> 100"
    by (auto simp add: nivel_spec_def split: if_splits)
  from assms(1,2,3) r have s: "nivel_spec q = Some (nivel_codigo pp)"
    and f: "campo rr (str ''color'') = Some (JStr (fst (nivel_codigo pp)))"
      "campo rr (str ''label'') = Some (JStr (snd (nivel_codigo pp)))"
    by (auto simp add: tier_de_porcentaje_def)
  from s assms(4) have "nivel_codigo pp = (c, l)" by simp
  with f show ?thesis by simp
qed

lemma tier_fallback: "tier_de_porcentaje (analisis_fallback texto nivel)"
proof (rule tier_de_porcentaje_intro)
  show "campo (analisis_fallback texto nivel) (str ''porcentaje'') =
      Some (JInt (min (50 + penalizacion texto) 100))"
    by (rule fallback_porcentaje)
  show "es_numero (JInt (min (50 + penalizacion texto) 100))" by simp
  show "campo (analisis_fallback texto nivel) (str ''color'') =
      Some (JStr (fst (nivel_codigo (JInt (min (50 + penalizacion texto) 100)))))"
    using penalizacion_range [of texto]
    by (auto simp add: fallback_color nivel_codigo_def menor_que_def min_def)
  show "campo (analisis_fallback texto nivel) (str ''label'') =
      Some (JStr (snd (nivel_codigo (JInt (min (50 + penalizacion texto) 100)))))"
    using penalizacion_range [of texto]
    by (auto simp add: fallback_label nivel_codigo_def menor_que_def min_def)
qed

lemma tier_informe_ia:
  assumes "es_numero (dict_get d (str ''porcentaje'') (JInt 50))"
  shows "tier_de_porcentaje (informe_ia d texto nivel)"
proof (rule tier_de_porcentaje_intro)
  show "campo (informe_ia d texto nivel) (str ''porcentaje'') =
      Some (dict_get d (str ''porcentaje'') (JInt 50))"
    by (rule informe_ia_campos)
  show "es_numero (dict_get d (str ''porcentaje'') (JInt 50))" by (rule assms)
  show "campo (informe_ia d texto nivel) (str ''color'') =
      Some (JStr (fst (nivel_codigo (dict_get d (str ''porcentaje'') (JInt 50)))))"
    by (simp add: informe_ia_campos nivel_codigo_def)
  show "campo (informe_ia d texto nivel) (str ''label'') =
      Some (JStr (snd (nivel_codigo (dict_get d (str ''porcentaje'') (JInt 50)))))"
    by (simp add: informe_ia_campos nivel_codigo_def)
qed

lemma transformar_tier:
  assumes "transformar_respuesta_gemini out ld resp texto nivel = Inr (r, ok, m)"
  shows "tier_de_porcentaje r"
proof (cases ok)
  case True
  with assms transformar_flag_True [of out ld resp texto nivel r m] show ?thesis
    by (auto simp add: tier_informe_ia)
next
  case False
  with assms transformar_flag_False [of out ld resp texto nivel r m] show ?thesis
    by (auto simp add: tier_fallback)
qed

lemma orchestrator_tier:
  assumes "analizar_con_gemini env texto nivel = Inr (r, ok, m)"
  shows "tier_de_porcentaje r"
proof (cases ok)
  case True
  with assms orchestrator_ia_report [of env texto nivel r m] show ?thesis
    by (auto simp add: tier_informe_ia)
next
  case False
  with assms orchestrator_fallback_report [of env texto nivel r m] show ?thesis
    by (auto simp add: tier_fallback)
qed

lemma analizar_tier:
  assumes "status (analizar env req staged texto) = 200"
    and "Analizar_con_gemini \<in> set (llamadas (analizar env req staged texto))"
  shows "tier_de_porcentaje (body (analizar env req staged texto))"
proof -
  from analizar_200_pipeline [OF assms] obtain f n data ok msg l where
    a: "aceptada env req f n" "staged = None" "texto \<noteq> []"
      "analizar_con_gemini env texto n = Inr (JObj data, ok, msg)"
      "dict_get data (str ''label'') (JStr (str ''medio'')) = JStr l"
    by blast
  from a(4) have "tier_de_porcentaje (JObj data)" by (rule orchestrator_tier)
  from tier_de_porcentaje_elim [OF this] obtain p where t:
    "campo (JObj data) (str ''porcentaje'') = Some p" "es_numero p"
    "campo (JObj data) (str ''color'') = Some (JStr (fst (nivel_codigo p)))"
    "campo (JObj data) (str ''label'') = Some (JStr (snd (nivel_codigo p)))"
    by blast
  from a(5) t(4) have l: "l = snd (nivel_codigo p)" by (simp add: dict_get_campo)
  note b = analizar_informe [OF a(1) a(3) a(4) a(5)]
  show ?thesis
    unfolding a(2) b
  proof (rule tier_de_porcentaje_intro [where p = p])
    show "es_numero p" by (rule t(2))
  qed (use t l in \<open>simp_all add: campo_Cons dict_get_campo capitalize_nivel_codigo\<close>)
qed

subsection \<open>Colour and label follow the percentage\<close>

text \<open>
  Claim C4. In every report of either pipeline path colour and label are the tier of the
  percentage. \<open>tier_de_porcentaje r\<close> says that the report \<open>r\<close> carries a percentage that
  is a number, a colour and a label, and that colour and label are those the thresholds
  50 and 75 give for that percentage. It holds of the Heuristic Scorer's report, of the
  Response Normalizer's report (which carries the percentage the parsed object gives),
  of whichever of the two the Orchestrator returns, and of the one the handler sends
  after reshaping it. And a report of which it holds shows \<open>green\<close>/\<open>Bajo\<close> for a
  percentage in [0,50), \<open>yellow\<close>/\<open>Medio\<close> in [50,75) and \<open>red\<close>/\<open>Alto\<close> in [75,100].
\<close>

theorem tiers_follow_percentage:
  "tier_de_porcentaje (analisis_fallback texto nivel) \<and>
   (ld resp = Inr (JObj d) \<and> es_numero (dict_get d (str ''porcentaje'') (JInt 50)) \<longrightarrow>
      transformar_respuesta_gemini out ld resp texto nivel =
        Inr (informe_ia d texto nivel, True, analisis_exitoso) \<and>
      campo (informe_ia d texto nivel) (str ''porcentaje'') =
        Some (dict_get d (str ''porcentaje'') (JInt 50)) \<and>
      tier_de_porcentaje (informe_ia d texto nivel)) \<and>
   (transformar_respuesta_gemini out ld resp texto nivel = Inr (r, ok, m) \<longrightarrow>
      tier_de_porcentaje r) \<and>
   (analizar_con_gemini env texto nivel = Inr (r', ok', m') \<longrightarrow> tier_de_porcentaje r') \<and>
   (status (analizar env req staged texto) = 200 \<and>
    Analizar_con_gemini \<in> set (llamadas (analizar env req staged texto)) \<longrightarrow>
      tier_de_porcentaje (body (analizar env req staged texto))) \<and>
   (tier_de_porcentaje rr \<longrightarrow>
      (\<exists>p. campo rr (str ''porcentaje'') = Some p \<and> es_numero p \<and>
           campo rr (str ''color'') = Some (JStr (fst (nivel_codigo p))) \<and>
           campo rr (str ''label'') = Some (JStr (snd (nivel_codigo p))))) \<and>
   (tier_de_porcentaje rr \<and> campo rr (str ''porcentaje'') = Some pp \<and>
    valor_numerico pp = Some q \<and> 0 \<le> q \<and> q < 50 \<longrightarrow>
      campo rr (str ''color'') = Some (JStr (str ''green'')) \<and>
      campo rr (str ''label'') = Some (JStr (str ''Bajo''))) \<and>
   (tier_de_porcentaje rr \<and> campo rr (str ''porcentaje'') = Some pp \<and>
    valor_numerico pp = Some q \<and> 50 \<le> q \<and> q < 75 \<longrightarrow>
      campo rr (str ''color'') = Some (JStr (str ''yellow'')) \<and>
      campo rr (str ''label'') = Some (JStr (str ''Medio''))) \<and>
   (tier_de_porcentaje rr \<and> campo rr (str ''porcentaje'') = Some pp \<and>
    valor_numerico pp = Some q \<and> 75 \<le> q \<and> q \<le> 100 \<longrightarrow>
      campo rr (str ''color'') = Some (JStr (str ''red'')) \<and>
      campo rr (str ''label'') = Some (JStr (str ''Alto'')))"
proof -
  have 1: "tier_de_porcentaje (analisis_fallback texto nivel)"
    by (rule tier_fallback)
  have 2: "ld resp = Inr (JObj d) \<and> es_numero (dict_get d (str ''porcentaje'') (JInt 50)) \<longrightarrow>
      transformar_respuesta_gemini out ld resp texto nivel =
        Inr (informe_ia d texto nivel, True, analisis_exitoso) \<and>
      campo (informe_ia d texto nivel) (str ''porcentaje'') =
        Some (dict_get d (str ''porcentaje'') (JInt 50)) \<and>
      tier_de_porcentaje (informe_ia d texto nivel)"
    by (simp add: transformar_result transformar_try_numero informe_ia_campos tier_informe_ia)
  have 3: "transformar_respuesta_gemini out ld resp texto nivel = Inr (r, ok, m) \<longrightarrow>
      tier_de_porcentaje r"
    using transformar_tier by blast
  have 4: "analizar_con_gemini env texto nivel = Inr (r', ok', m') \<longrightarrow> tier_de_porcentaje r'"
    using orchestrator_tier by blast
  have 5: "status (analizar env req staged texto) = 200 \<and>
    Analizar_con_gemini \<in> set (llamadas (analizar env req staged texto)) \<longrightarrow>
      tier_de_porcentaje (body (analizar env req staged texto))"
    using analizar_tier by blast
  have 6: "tier_de_porcentaje rr \<longrightarrow>
      (\<exists>p. campo rr (str ''porcentaje'') = Some p \<and> es_numero p \<and>
           campo rr (str ''color'') = Some (JStr (fst (nivel_codigo p))) \<and>
           campo rr (str ''label'') = Some (JStr (snd (nivel_codigo p))))"
    using tier_de_porcentaje_elim by blast
  have 7: "tier_de_porcentaje rr \<and> campo rr (str ''porcentaje'') = Some pp \<and>
    valor_numerico pp = Some q \<and> 0 \<le> q \<and> q < 50 \<longrightarrow>
      campo rr (str ''color'') = Some (JStr (str ''green'')) \<and>
      campo rr (str ''label'') = Some (JStr (str ''Bajo''))"
    using tier_tabla [of rr pp q "str ''green''" "str ''Bajo''"]
    by (simp add: nivel_spec_def)
  have 8: "tier_de_porcentaje rr \<and> campo rr (str ''porcentaje'') = Some pp \<and>
    valor_numerico pp = Some q \<and> 50 \<le> q \<and> q < 75 \<longrightarrow>
      campo rr (str ''color'') = Some (JStr (str ''yellow'')) \<and>
      campo rr (str ''label'') = Some (JStr (str ''Medio''))"
    using tier_tabla [of rr pp q "str ''yellow''" "str ''Medio''"]
    by (simp add: nivel_spec_def)
  have 9: "tier_de_porcentaje rr \<and> campo rr (str ''porcentaje'') = Some pp \<and>
    valor_numerico pp = Some q \<and> 75 \<le> q \<and> q \<le> 100 \<longrightarrow>
      campo rr (str ''color'') = Some (JStr (str ''red'')) \<and>
      campo rr (str ''label'') = Some (JStr (str ''Alto''))"
    using tier_tabla [of rr pp q "str ''red''" "str ''Alto''"]
    by (simp add: nivel_spec_def)
  show ?thesis
    apply (intro conjI)
            apply (rule 1)
           apply (rule 2)
          apply (rule 3)
         apply (rule 4)
        apply (rule 5)
       apply (rule 6)
      apply (rule 7)
     apply (rule 8)
    apply (rule 9)
    done
qed

theorem tiers_follow_percentage_witness:
  "transformar_respuesta_gemini (\<lambda>linea. None) loads_82 (str ''{}'') (str ''Hola.'')
     (str ''superior'') =
     Inr (informe_ia [(str ''porcentaje'', JInt 82)] (str ''Hola.'') (str ''superior''),
          True, analisis_exitoso) \<and>
   campo (informe_ia [(str ''porcentaje'', JInt 82)] (str ''Hola.'') (str ''superior''))
     (str ''porcentaje'') = Some (JInt 82) \<and>
   campo (informe_ia [(str ''porcentaje'', JInt 82)] (str ''Hola.'') (str ''superior''))
     (str ''color'') = Some (JStr (str ''red'')) \<and>
   campo (informe_ia [(str ''porcentaje'', JInt 82)] (str ''Hola.'') (str ''superior''))
     (str ''label'') = Some (JStr (str ''Alto''))"
proof -
  let ?r = "informe_ia [(str ''porcentaje'', JInt 82)] (str ''Hola.'') (str ''superior'')"
  note t = tiers_follow_percentage
    [where ld = loads_82 and resp = "str ''{}''" and texto = "str ''Hola.''"
      and nivel = "str ''superior''" and d = "[(str ''porcentaje'', JInt 82)]"
      and out = "\<lambda>linea. None" and rr = ?r and pp = "JInt 82" and q = 82]
  note c2 = conjunct2
  have g: "dict_get [(str ''porcentaje'', JInt 82)] (str ''porcentaje'') (JInt 50) = JInt 82"
    by (simp add: dict_get_def)
  have "loads_82 (str ''{}'') = Inr (JObj [(str ''porcentaje'', JInt 82)])"
    by (simp add: loads_82_def)
  with t [THEN c2, THEN conjunct1] g
  have a: "transformar_respuesta_gemini (\<lambda>linea. None) loads_82 (str ''{}'') (str ''Hola.'')
      (str ''superior'') = Inr (?r, True, analisis_exitoso)"
    and b: "campo ?r (str ''porcentaje'') = Some (JInt 82)"
    and c: "tier_de_porcentaje ?r"
    by simp_all
  from t [THEN c2, THEN c2, THEN c2, THEN c2, THEN c2, THEN c2, THEN c2, THEN c2] b c
  have "campo ?r (str ''color'') = Some (JStr (str ''red'')) \<and>
      campo ?r (str ''label'') = Some (JStr (str ''Alto''))"
    by simp
  with a b show ?thesis by simp
qed

subsection \<open>Responses with missing or null fields\<close>

text \<open>
  Claim C1 says that every response carries the twelve fields of a report, none omitted
  and none null. Two requests show what the handler does instead. An accepted upload
  whose extracted text is empty is answered with eight fields: \<open>nivel_educativo\<close>,
  \<open>longitud_texto\<close>, \<open>palabras_unicas\<close> and \<open>densidad_vocabulario\<close> are missing. And when
  Gemini answers \<open>{"porcentaje": 80, "indicadores": null}\<close>, the null reaches the client
  in the field \<open>indicadores\<close>.
\<close>

lemma aceptada_vacia: "aceptada entorno_cuota peticion_vacia
    \<lparr>filename = str ''vacio.txt'', file_size = 0\<rparr> (str ''basica-1-4'')"
  by (simp add: aceptada_def peticion_vacia_def entorno_cuota_def allowed_file_def
      ALLOWED_EXTENSIONS_def endswith_def ascii_lower_def lower_cp_def str_def MAX_FILE_SIZE_def)

lemma aceptada_hola: "aceptada entorno_nulo peticion_hola
    \<lparr>filename = str ''hola.txt'', file_size = 5\<rparr> (str ''superior'')"
  by (simp add: aceptada_def peticion_hola_def entorno_nulo_def allowed_file_def
      ALLOWED_EXTENSIONS_def endswith_def ascii_lower_def lower_cp_def str_def MAX_FILE_SIZE_def)

lemma limpiar_json_nulo: "limpiar_respuesta_gemini json_nulo = json_nulo"
  by (simp add: limpiar_respuesta_gemini_def json_nulo_def startswith_def strip_def
      isspace_def str_def)

lemma strip_json_nulo: "strip json_nulo \<noteq> []"
  by (simp add: json_nulo_def strip_def isspace_def str_def)

lemma orquestador_nulo:
  "analizar_con_gemini entorno_nulo (str ''Hola.'') (str ''superior'') =
     Inr (informe_ia [(str ''porcentaje'', JInt 80), (str ''indicadores'', JNull)]
            (str ''Hola.'') (str ''superior''), True, analisis_exitoso)"
proof -
  have k: "clave_configurada entorno_nulo"
    by (simp add: clave_configurada_def entorno_nulo_def)
  have o: "acepta (stdout entorno_nulo)"
    by (simp add: acepta_def entorno_nulo_def)
  have c: "llamada_gemini entorno_nulo (str ''Hola.'') (str ''superior'') =
      Inr (RespTexto (Some json_nulo))"
    by (simp add: llamada_gemini_def entorno_nulo_def)
  have l: "json_loads entorno_nulo json_nulo =
      Inr (JObj [(str ''porcentaje'', JInt 80), (str ''indicadores'', JNull)])"
    by (simp add: entorno_nulo_def)
  have t: "transformar_try (json_loads entorno_nulo) json_nulo (str ''Hola.'') (str ''superior'') =
      Inr (informe_ia [(str ''porcentaje'', JInt 80), (str ''indicadores'', JNull)]
            (str ''Hola.'') (str ''superior''), True, analisis_exitoso)"
    by (rule transformar_try_numero [where ld = "json_loads entorno_nulo", OF l])
      (simp add: dict_get_def)
  show ?thesis
    by (simp add: analizar_con_gemini_llamada [OF o strip_hola k] c strip_json_nulo
        limpiar_json_nulo transformar_result t)
qed

theorem response_omits_or_nulls_fields:
  "status (analizar entorno_cuota peticion_vacia None []) = 200 \<and>
   campo (body (analizar entorno_cuota peticion_vacia None [])) (str ''nivel_educativo'') = None \<and>
   campo (body (analizar entorno_cuota peticion_vacia None [])) (str ''longitud_texto'') = None \<and>
   campo (body (analizar entorno_cuota peticion_vacia None [])) (str ''palabras_unicas'') = None \<and>
   campo (body (analizar entorno_cuota peticion_vacia None [])) (str ''densidad_vocabulario'') = None \<and>
   status (analizar entorno_nulo peticion_hola None (str ''Hola.'')) = 200 \<and>
   campo (body (analizar entorno_nulo peticion_hola None (str ''Hola.''))) (str ''indicadores'') =
     Some JNull"
proof -
  have h: "str ''Hola.'' \<noteq> []" by simp
  have l: "dict_get [(str ''porcentaje'', JInt 80), (str ''indicadores'', JNull)]
      (str ''label'') (JStr (str ''medio'')) = JStr (str ''medio'')"
    by (simp add: dict_get_def)
  have i: "informe_ia [(str ''porcentaje'', JInt 80), (str ''indicadores'', JNull)]
      (str ''Hola.'') (str ''superior'') = JObj
        [(str ''porcentaje'', JInt 80),
         (str ''color'', JStr (str ''red'')),
         (str ''label'', JStr (str ''Alto'')),
         (str ''indicadores'', JNull),
         (str ''preguntas'', JList []),
         (str ''filename'', JStr []),
         (str ''analizado_con_ia'', JBool True),
         (str ''nivel_educativo'', JStr (str ''superior'')),
         (str ''error_info'', JStr analisis_exitoso),
         (str ''longitud_texto'', JInt 5),
         (str ''palabras_unicas'', JInt (int (card (set (split (str ''Hola.'')))))),
         (str ''densidad_vocabulario'', densidad_vocabulario (str ''Hola.''))]"
    by (simp add: informe_ia_def Let_def dict_get_def menor_que_def str_def)
  have l': "dict_get
        [(str ''porcentaje'', JInt 80),
         (str ''color'', JStr (str ''red'')),
         (str ''label'', JStr (str ''Alto'')),
         (str ''indicadores'', JNull),
         (str ''preguntas'', JList []),
         (str ''filename'', JStr []),
         (str ''analizado_con_ia'', JBool True),
         (str ''nivel_educativo'', JStr (str ''superior'')),
         (str ''error_info'', JStr analisis_exitoso),
         (str ''longitud_texto'', JInt 5),
         (str ''palabras_unicas'', JInt (int (card (set (split (str ''Hola.'')))))),
         (str ''densidad_vocabulario'', densidad_vocabulario (str ''Hola.''))]
       (str ''label'') (JStr (str ''medio'')) = JStr (str ''Alto'')"
    by (simp add: dict_get_def)
  show ?thesis
    by (simp add: analizar_sin_texto [OF aceptada_vacia]
        analizar_informe [OF aceptada_hola h orquestador_nulo [unfolded i] l']
        campo_Cons campo_Nil dict_get_def)
qed

subsection \<open>Cleaning the response of Gemini\<close>

lemma replace_no_first:
  "old \<noteq> [] \<Longrightarrow> hd old \<notin> set xs \<Longrightarrow> replace old new (xs @ ys) = xs @ replace old new ys"
proof (induction xs)
  case Nil
  then show ?case by simp
next
  case (Cons x xs)
  then have "\<not> startswith (x # xs @ ys) old"
    by (cases old) (auto simp add: startswith_def)
  with Cons show ?case by simp
qed

lemma replace_prefix:
  "old \<noteq> [] \<Longrightarrow> replace old new (old @ ys) = new @ replace old new ys"
  by (cases old) (simp_all add: startswith_def)

lemma limpiar_sin_cerca:
  "\<not> startswith s (str ''```json'') \<Longrightarrow> limpiar_respuesta_gemini s = desescapar (strip s)"
  by (simp add: limpiar_respuesta_gemini_def desescapar_def Let_def strip_def)

lemma limpiar_con_cerca:
  "startswith s (str ''```json'') \<Longrightarrow>
   limpiar_respuesta_gemini s =
     desescapar (strip (replace (str ''```'') [] (replace (str ''```json'') [] s)))"
  by (auto simp add: limpiar_respuesta_gemini_def desescapar_def Let_def startswith_def)

lemma quitar_cercas_bloque:
  assumes "96 \<notin> set b"
  shows "replace (str ''```'') [] (replace (str ''```json'') [] (str ''```json'' @ b @ str ''```'')) = b"
proof -
  have h7: "hd (str ''```json'') = 96" and h3: "hd (str ''```'') = 96"
    by (simp_all add: str_def)
  have t: "replace (str ''```json'') [] (str ''```'') = str ''```''"
    by (simp add: str_def startswith_def)
  have "replace (str ''```json'') [] (str ''```json'' @ b @ str ''```'') =
          replace (str ''```json'') [] (b @ str ''```'')"
    by (simp add: replace_prefix)
  also have "\<dots> = b @ str ''```''"
    using assms by (simp add: replace_no_first h7 t)
  finally have 1: "replace (str ''```json'') [] (str ''```json'' @ b @ str ''```'') = b @ str ''```''" .
  have t3: "replace (str ''```'') [] (str ''```'') = []"
    by (simp add: str_def startswith_def)
  have "replace (str ''```'') [] (b @ str ''```'') = b"
    using assms by (simp add: replace_no_first h3 t3)
  with 1 show ?thesis by simp
qed

text \<open>
  Claim C6 describes the cleaning step as: strip a leading and a trailing JSON code-fence
  marker if present, trim the surrounding white space, replace the two-character
  sequences backslash-n and backslash-t by a newline and a tab; a string that does not
  start with the fence only gets the trim and the replacement. \<open>limpiar_spec\<close> is
  that description. The program differs from it on a fenced response that holds three
  backticks somewhere else: \<open>str.replace\<close> removes every occurrence, not only those at
  the two ends.
\<close>

theorem limpiar_strips_only_the_ends_counterexample:
  "limpiar_respuesta_gemini respuesta_con_cerca_interior =
     str ''['' @ [34] @ str ''ab'' @ [34] @ str '']'' \<and>
   limpiar_spec respuesta_con_cerca_interior =
     str ''['' @ [34] @ str ''a```b'' @ [34] @ str '']'' \<and>
   limpiar_respuesta_gemini respuesta_con_cerca_interior \<noteq>
     limpiar_spec respuesta_con_cerca_interior"
  by (simp add: limpiar_respuesta_gemini_def limpiar_spec_def quitar_cerca_spec_def
      desescapar_def respuesta_con_cerca_interior_def startswith_def endswith_def strip_def
      isspace_def str_def Let_def)

text \<open>
  Claim C6, amended. A response that starts with the JSON fence loses every occurrence of
  the marker \<open>```json\<close> and then every remaining run of three backticks, wherever they
  stand; then the white space around it is trimmed and backslash-n and backslash-t are
  replaced. For a single fenced block (no backtick between the two markers) this strips
  exactly the leading and the trailing marker, as the specification says, and a response
  that does not start with the fence only gets the trim and the replacement.
\<close>

theorem limpiar_removes_every_fence:
  "(\<not> startswith s (str ''```json'') \<longrightarrow>
      limpiar_respuesta_gemini s = desescapar (strip s) \<and>
      limpiar_respuesta_gemini s = limpiar_spec s) \<and>
   (startswith s (str ''```json'') \<longrightarrow>
      limpiar_respuesta_gemini s =
        desescapar (strip (replace (str ''```'') [] (replace (str ''```json'') [] s)))) \<and>
   (96 \<notin> set b \<longrightarrow>
      limpiar_respuesta_gemini (str ''```json'' @ b @ str ''```'') = desescapar (strip b) \<and>
      limpiar_respuesta_gemini (str ''```json'' @ b @ str ''```'') =
        limpiar_spec (str ''```json'' @ b @ str ''```''))"
proof (intro conjI impI)
  assume "\<not> startswith s (str ''```json'')"
  then show "limpiar_respuesta_gemini s = desescapar (strip s)"
    and "limpiar_respuesta_gemini s = limpiar_spec s"
    by (simp_all add: limpiar_sin_cerca limpiar_spec_def quitar_cerca_spec_def)
next
  assume "startswith s (str ''```json'')"
  then show "limpiar_respuesta_gemini s =
        desescapar (strip (replace (str ''```'') [] (replace (str ''```json'') [] s)))"
    by (rule limpiar_con_cerca)
next
  assume b: "96 \<notin> set b"
  have sw: "startswith (str ''```json'' @ b @ str ''```'') (str ''```json'')"
    by (simp add: startswith_def)
  show 1: "limpiar_respuesta_gemini (str ''```json'' @ b @ str ''```'') = desescapar (strip b)"
    by (simp add: limpiar_con_cerca [OF sw] quitar_cercas_bloque [OF b])
  have "quitar_cerca_spec (str ''```json'' @ b @ str ''```'') = b"
    using sw by (simp add: quitar_cerca_spec_def Let_def endswith_def str_def)
  then show "limpiar_respuesta_gemini (str ''```json'' @ b @ str ''```'') =
        limpiar_spec (str ''```json'' @ b @ str ''```'')"
    using 1 by (simp add: limpiar_spec_def)
qed

theorem limpiar_removes_every_fence_witness:
  "limpiar_respuesta_gemini (str ''```json'' @ ([10] @ str ''[1]'' @ [10]) @ str ''```'') =
     str ''[1]''"
proof -
  have "96 \<notin> set ([10] @ str ''[1]'' @ [10])" by (simp add: str_def)
  with limpiar_removes_every_fence [of _ "[10] @ str ''[1]'' @ [10]"]
  have "limpiar_respuesta_gemini (str ''```json'' @ ([10] @ str ''[1]'' @ [10]) @ str ''```'') =
      desescapar (strip ([10] @ str ''[1]'' @ [10]))"
    by blast
  then show ?thesis
    by (simp add: desescapar_def strip_def isspace_def str_def startswith_def)
qed

subsection \<open>Rounding to the nearest float\<close>

text \<open>
  \<open>expo\<close> is the binary exponent, \<open>rhe\<close> never crosses an integer, and so \<open>fl\<close> never
  crosses a float: a bound that is itself a float of exponent \<open>eB\<close> bounds the rounded
  value as it bounds the exact one.
\<close>

lemma bitlen_pos_bounds:
  assumes "0 < p"
  shows "1 \<le> bitlen p" "(2::rat) powi (bitlen p - 1) \<le> of_int p" "of_int p < (2::rat) powi (bitlen p)"
proof -
  from bitlen_bounds [OF assms] have b: "2 ^ nat (bitlen p - 1) \<le> p" "p < 2 ^ nat (bitlen p)"
    by simp_all
  show 1: "1 \<le> bitlen p"
  proof (rule ccontr)
    assume "\<not> 1 \<le> bitlen p"
    then have "nat (bitlen p) = 0" by simp
    with b(2) assms show False by simp
  qed
  have "(2::rat) powi (bitlen p - 1) = 2 ^ nat (bitlen p - 1)"
    using 1 by (simp add: power_int_nonneg_exp)
  also have "\<dots> = of_int (2 ^ nat (bitlen p - 1))" by simp
  also have "\<dots> \<le> of_int p" using b(1) by (simp only: of_int_le_iff)
  finally show "(2::rat) powi (bitlen p - 1) \<le> of_int p" .
  have "(of_int p :: rat) < of_int (2 ^ nat (bitlen p))" using b(2) by (simp only: of_int_less_iff)
  also have "\<dots> = 2 ^ nat (bitlen p)" by simp
  also have "\<dots> = (2::rat) powi (bitlen p)"
    using 1 by (simp add: power_int_nonneg_exp)
  finally show "of_int p < (2::rat) powi (bitlen p)" .
qed

lemma expo_bounds:
  assumes "0 < x"
  shows "2 powi (expo x) \<le> x" "x < 2 powi (expo x + 1)"
proof -
  obtain p q where pq: "quotient_of x = (p, q)" by (cases "quotient_of x")
  then have q: "0 < q" by (rule quotient_of_denom_pos)
  from pq have x: "x = of_int p / of_int q" by (rule quotient_of_div)
  with assms q have p: "0 < p" by (simp add: zero_less_divide_iff)
  define a where "a = bitlen p"
  define b where "b = bitlen q"
  note pa = bitlen_pos_bounds [OF p, folded a_def]
  note qb = bitlen_pos_bounds [OF q, folded b_def]
  have qpos: "(0::rat) < of_int q" using q by simp
  have up: "x < 2 powi (a - b + 1)"
  proof -
    have "x < 2 powi a / of_int q"
      unfolding x using pa(3) qpos by (simp add: divide_strict_right_mono)
    also have "\<dots> \<le> 2 powi a / 2 powi (b - 1)"
    proof (rule divide_left_mono [OF qb(2)])
      show "(0::rat) \<le> 2 powi a" by simp
      show "(0::rat) < of_int q * 2 powi (b - 1)"
        using qpos by (intro mult_pos_pos) simp_all
    qed
    also have "\<dots> = 2 powi (a - (b - 1))"
      by (simp add: power_int_diff)
    finally show ?thesis by (simp add: algebra_simps)
  qed
  have lo: "2 powi (a - b - 1) < x"
  proof -
    have "(2::rat) powi (a - b - 1) = 2 powi ((a - 1) - b)" by (simp add: algebra_simps)
    also have "\<dots> = 2 powi (a - 1) / 2 powi b" by (simp add: power_int_diff)
    also have "\<dots> < 2 powi (a - 1) / of_int q"
    proof (rule divide_strict_left_mono [OF qb(3)])
      show "(0::rat) < 2 powi (a - 1)" by simp
      show "(0::rat) < 2 powi b * of_int q"
        using qpos by (intro mult_pos_pos) simp_all
    qed
    also have "\<dots> \<le> x"
      unfolding x using pa(2) qpos by (simp add: divide_right_mono)
    finally show ?thesis .
  qed
  have e: "expo x = (if 2 powi (a - b) \<le> x then a - b else a - b - 1)"
    by (simp add: expo_def pq a_def b_def Let_def)
  show "2 powi (expo x) \<le> x"
    using lo by (auto simp add: e)
  show "x < 2 powi (expo x + 1)"
    using up by (auto simp add: e)
qed

lemma rhe_cases: "rhe q = \<lfloor>q\<rfloor> \<or> (rhe q = \<lfloor>q\<rfloor> + 1 \<and> of_int \<lfloor>q\<rfloor> < q)"
  by (auto simp add: rhe_def Let_def)

lemma rhe_le: "q \<le> of_int N \<Longrightarrow> rhe q \<le> N"
proof -
  assume a: "q \<le> of_int N"
  then have f: "\<lfloor>q\<rfloor> \<le> N" by (simp add: floor_le_iff) 
  from rhe_cases [of q] show ?thesis
  proof
    assume "rhe q = \<lfloor>q\<rfloor>" with f show ?thesis by simp
  next
    assume r: "rhe q = \<lfloor>q\<rfloor> + 1 \<and> of_int \<lfloor>q\<rfloor> < q"
    with a have "(of_int \<lfloor>q\<rfloor> :: rat) < of_int N" by simp
    then have "\<lfloor>q\<rfloor> < N" by (simp only: of_int_less_iff)
    with r show ?thesis by simp
  qed
qed

lemma rhe_ge: "of_int N \<le> q \<Longrightarrow> N \<le> rhe q"
proof -
  assume "of_int N \<le> q"
  then have "N \<le> \<lfloor>q\<rfloor>" by (simp add: le_floor_iff)
  with rhe_cases [of q] show ?thesis by auto
qed


lemma fl_pos_unfold:
  assumes "0 < x"
  shows "fl x = of_int (rhe (x / 2 powi (max (expo x) (- 1022) - 52))) *
                2 powi (max (expo x) (- 1022) - 52)"
  using assms by (simp add: fl_def Let_def)

lemma fl_nonneg: "0 \<le> x \<Longrightarrow> 0 \<le> fl x"
proof (cases "x = 0")
  case True
  then show ?thesis by (simp add: fl_def)
next
  case False
  assume "0 \<le> x"
  with False have x: "0 < x" by simp
  let ?u = "(2::rat) powi (max (expo x) (- 1022) - 52)"
  have u: "0 < ?u" by simp
  have "(of_int 0 :: rat) \<le> x / ?u" using x u by simp
  then have "0 \<le> rhe (x / ?u)" by (rule rhe_ge)
  then show ?thesis
    unfolding fl_pos_unfold [OF x] using u by (intro mult_nonneg_nonneg) simp_all
qed

lemma powi_less_imp_less:
  assumes "(2::rat) powi m < 2 powi n"
  shows "m < n"
proof (rule ccontr)
  assume "\<not> m < n"
  then have "n \<le> m" by simp
  then have "(2::rat) powi n \<le> 2 powi m" by (intro power_int_increasing) simp_all
  with assms show False by simp
qed

lemma fl_le:
  assumes x: "0 \<le> x" "x \<le> B"
    and B: "B = of_int m * 2 powi (eB - 52)" "B < 2 powi (eB + 1)" "- 1022 \<le> eB"
  shows "fl x \<le> B"
proof (cases "x = 0")
  case True
  with x show ?thesis by (simp add: fl_def)
next
  case False
  with x have xp: "0 < x" by simp
  define e where "e = max (expo x) (- 1022)"
  let ?u = "(2::rat) powi (e - 52)"
  have u: "0 < ?u" by simp
  have "2 powi (expo x) \<le> x" using xp by (rule expo_bounds)
  also have "x < 2 powi (eB + 1)" using x(2) B(2) by simp
  finally have "expo x < eB + 1" by (rule powi_less_imp_less)
  with B(3) have le: "e \<le> eB" by (simp add: e_def)
  define N where "N = m * 2 ^ nat (eB - e)"
  have "B / ?u = of_int m * (2 powi (eB - 52) / 2 powi (e - 52))"
    by (simp add: B(1))
  also have "2 powi (eB - 52) / (2::rat) powi (e - 52) = 2 powi ((eB - 52) - (e - 52))"
    by (simp add: power_int_diff)
  also have "(eB - 52) - (e - 52) = eB - e" by simp
  also have "(2::rat) powi (eB - e) = 2 ^ nat (eB - e)"
    using le by (simp add: power_int_nonneg_exp)
  finally have BN: "B / ?u = of_int N" by (simp add: N_def)
  have "x / ?u \<le> B / ?u" using x(2) u by (simp add: divide_right_mono)
  then have "rhe (x / ?u) \<le> N" unfolding BN by (rule rhe_le)
  then have "(of_int (rhe (x / ?u)) :: rat) \<le> of_int N" by (simp only: of_int_le_iff)
  then have "of_int (rhe (x / ?u)) * ?u \<le> of_int N * ?u"
    using u by (intro mult_right_mono) simp_all
  also have "of_int N * ?u = B" using BN u by (simp add: field_simps)
  finally show ?thesis
    unfolding fl_pos_unfold [OF xp] e_def .
qed

lemma fl_ge:
  assumes x: "B \<le> x"
    and B: "B = of_int m * 2 powi (eB - 52)" "2 powi eB \<le> B" "B < 2 powi (eB + 1)"
      "- 1022 \<le> eB"
  shows "B \<le> fl x"
proof -
  have Bp: "0 < B" using B(2) by (rule less_le_trans [rotated]) simp
  with x have xp: "0 < x" by simp
  define e where "e = max (expo x) (- 1022)"
  let ?u = "(2::rat) powi (e - 52)"
  have u: "0 < ?u" by simp
  have "2 powi eB \<le> x" using B(2) x by simp
  also have "x < 2 powi (expo x + 1)" using xp by (rule expo_bounds)
  finally have "eB < expo x + 1" by (rule powi_less_imp_less)
  with B(4) have ex: "e = expo x" "eB \<le> e" by (simp_all add: e_def)
  show ?thesis
  proof (cases "e = eB")
    case True
    have "B / ?u = of_int m" using u by (simp add: B(1) True)
    moreover have "B / ?u \<le> x / ?u" using x u by (simp add: divide_right_mono)
    ultimately have "m \<le> rhe (x / ?u)" by (simp add: rhe_ge)
    then have "(of_int m :: rat) \<le> of_int (rhe (x / ?u))" by (simp only: of_int_le_iff)
    then have "of_int m * ?u \<le> of_int (rhe (x / ?u)) * ?u"
      using u by (intro mult_right_mono) simp_all
    then show ?thesis
      unfolding fl_pos_unfold [OF xp] e_def [symmetric] by (simp add: B(1) True)
  next
    case False
    with ex have lt: "eB + 1 \<le> e" by simp
    have "2 powi e \<le> x" unfolding ex(1) using xp by (rule expo_bounds)
    then have "2 powi e / ?u \<le> x / ?u" using u by (simp add: divide_right_mono)
    moreover have "2 powi e / ?u = (2::rat) powi (e - (e - 52))"
      by (simp add: power_int_diff)
    moreover have "(2::rat) powi (e - (e - 52)) = of_int (2 ^ 52)" by simp
    ultimately have "2 ^ 52 \<le> rhe (x / ?u)" by (simp only: rhe_ge)
    then have "(of_int (2 ^ 52) :: rat) \<le> of_int (rhe (x / ?u))" by (simp only: of_int_le_iff)
    then have m: "of_int (2 ^ 52) * ?u \<le> of_int (rhe (x / ?u)) * ?u"
      using u by (intro mult_right_mono) simp_all
    have "(2::rat) powi 52 * 2 powi (e - 52) = 2 powi (52 + (e - 52))"
      by (rule power_int_add [symmetric]) simp
    then have p: "of_int (2 ^ 52) * ?u = 2 powi e" by simp
    have "B < 2 powi (eB + 1)" by (rule B(3))
    also have "(2::rat) powi (eB + 1) \<le> 2 powi e"
      using lt by (intro power_int_increasing) simp_all
    also have "2 powi e = of_int (2 ^ 52) * ?u" by (rule p [symmetric])
    also note m
    finally have "B \<le> of_int (rhe (x / ?u)) * ?u" by simp
    then show ?thesis
      unfolding fl_pos_unfold [OF xp] e_def [symmetric] .
  qed
qed


end
